theory Spec2Isabelle
  imports Main "HOL-Library.Sublist"
begin

section \<open>Python values\<close>

text \<open>
  A Python \<open>str\<close> is a list of characters, one \<open>char\<close> for each code point; the
  type \<open>char\<close> has 256 values, so the texts covered are the Latin-1 ones. Exceptions are
  values: a function that may raise returns \<open>exn + 'a\<close>, with \<open>Inl\<close> for the raise.
  Only subclasses of \<open>Exception\<close> are modelled, the ones an \<open>except Exception\<close> clause
  catches.
\<close>

type_synonym path = string

datatype exn =
    JSONDecodeError
  | KeyError string
  | TypeError
  | AttributeError
  | IndexError
  | OSError string
  | ServiceError string

text \<open>
  The values \<open>json.loads\<close> builds. A dict is an association list in insertion order,
  read through \<open>map_of\<close>. Floating-point numbers are kept opaque.
\<close>

typedecl pyfloat

datatype json =
    JNull
  | JBool bool
  | JInt int
  | JFloat pyfloat
  | JStr string
  | JArr "json list"
  | JObj "(string \<times> json) list"

definition bnd :: "exn + 'a \<Rightarrow> ('a \<Rightarrow> exn + 'b) \<Rightarrow> exn + 'b" where
  "bnd m f = (case m of Inl e \<Rightarrow> Inl e | Inr x \<Rightarrow> f x)"

text \<open>\<open>d[k] = v\<close> on a dict: an existing key keeps its place, a new key goes last.\<close>

fun dict_set :: "string \<Rightarrow> json \<Rightarrow> (string \<times> json) list \<Rightarrow> (string \<times> json) list" where
  "dict_set k v [] = [(k, v)]"
| "dict_set k v ((k', v') # kvs) =
     (if k' = k then (k, v) # kvs else (k', v') # dict_set k v kvs)"

text \<open>\<open>x[k] = v\<close> with a string key; only a dict accepts it.\<close>

fun py_setitem :: "json \<Rightarrow> string \<Rightarrow> json \<Rightarrow> exn + json" where
  "py_setitem (JObj kvs) k v = Inr (JObj (dict_set k v kvs))"
| "py_setitem _ k v = Inl TypeError"

text \<open>\<open>k in s\<close> on two strings: \<open>k\<close> occurs in \<open>s\<close> as a contiguous piece.\<close>

fun py_substr :: "string \<Rightarrow> string \<Rightarrow> bool" where
  "py_substr k [] = (k = [])"
| "py_substr k (c # s) = (take (length k) (c # s) = k \<or> py_substr k s)"

text \<open>\<open>k in x\<close> with a string \<open>k\<close>.\<close>

fun py_contains :: "string \<Rightarrow> json \<Rightarrow> exn + bool" where
  "py_contains k (JObj kvs) = Inr (map_of kvs k \<noteq> None)"
| "py_contains k (JArr xs) = Inr (JStr k \<in> set xs)"
| "py_contains k (JStr s) = Inr (py_substr k s)"
| "py_contains k _ = Inl TypeError"

text \<open>\<open>x[k]\<close> with a string key.\<close>

fun py_getitem :: "json \<Rightarrow> string \<Rightarrow> exn + json" where
  "py_getitem (JObj kvs) k = (case map_of kvs k of None \<Rightarrow> Inl (KeyError k) | Some v \<Rightarrow> Inr v)"
| "py_getitem _ k = Inl TypeError"

text \<open>\<open>x.get(k, d)\<close>; \<open>x.get(k)\<close> is \<open>py_get x k JNull\<close>.\<close>

fun py_get :: "json \<Rightarrow> string \<Rightarrow> json \<Rightarrow> exn + json" where
  "py_get (JObj kvs) k d = Inr (case map_of kvs k of None \<Rightarrow> d | Some v \<Rightarrow> v)"
| "py_get _ k d = Inl AttributeError"

text \<open>
  \<open>str.lower\<close> on Latin-1 text: each capital letter, of the ASCII range or accented,
  goes to its small letter (32 places further), every other character stays.
\<close>

definition capital_letters :: string where
  "capital_letters =
     ''ABCDEFGHIJKLMNOPQRSTUVWXYZ'' @
       [CHR 0xC0, CHR 0xC1, CHR 0xC2, CHR 0xC3, CHR 0xC4, CHR 0xC5, CHR 0xC6, CHR 0xC7,
        CHR 0xC8, CHR 0xC9, CHR 0xCA, CHR 0xCB, CHR 0xCC, CHR 0xCD, CHR 0xCE, CHR 0xCF,
        CHR 0xD0, CHR 0xD1, CHR 0xD2, CHR 0xD3, CHR 0xD4, CHR 0xD5, CHR 0xD6, CHR 0xD8,
        CHR 0xD9, CHR 0xDA, CHR 0xDB, CHR 0xDC, CHR 0xDD, CHR 0xDE]"

definition small_letters :: string where
  "small_letters =
     ''abcdefghijklmnopqrstuvwxyz'' @
       [CHR 0xE0, CHR 0xE1, CHR 0xE2, CHR 0xE3, CHR 0xE4, CHR 0xE5, CHR 0xE6, CHR 0xE7,
        CHR 0xE8, CHR 0xE9, CHR 0xEA, CHR 0xEB, CHR 0xEC, CHR 0xED, CHR 0xEE, CHR 0xEF,
        CHR 0xF0, CHR 0xF1, CHR 0xF2, CHR 0xF3, CHR 0xF4, CHR 0xF5, CHR 0xF6, CHR 0xF8,
        CHR 0xF9, CHR 0xFA, CHR 0xFB, CHR 0xFC, CHR 0xFD, CHR 0xFE]"

definition lower_char :: "char \<Rightarrow> char" where
  "lower_char c =
     (case map_of (zip capital_letters small_letters) c of None \<Rightarrow> c | Some l \<Rightarrow> l)"

definition lower :: "string \<Rightarrow> string" where
  "lower s = map lower_char s"

fun py_lower :: "json \<Rightarrow> exn + string" where
  "py_lower (JStr s) = Inr (lower s)"
| "py_lower _ = Inl AttributeError"

text \<open>\<open>len(x)\<close>.\<close>

fun py_len :: "json \<Rightarrow> exn + nat" where
  "py_len (JStr s) = Inr (length s)"
| "py_len (JArr xs) = Inr (length xs)"
| "py_len (JObj kvs) = Inr (length (remdups (map fst kvs)))"
| "py_len _ = Inl TypeError"

text \<open>The items a \<open>for\<close> loop over \<open>x\<close> visits: a dict gives its keys, a string its characters.\<close>

fun py_iter :: "json \<Rightarrow> exn + json list" where
  "py_iter (JArr xs) = Inr xs"
| "py_iter (JObj kvs) = Inr (map JStr (remdups (map fst kvs)))"
| "py_iter (JStr s) = Inr (map (\<lambda>c. JStr [c]) s)"
| "py_iter _ = Inl TypeError"

text \<open>\<open>s.endswith((a, b, ...))\<close>.\<close>

definition endswith :: "string \<Rightarrow> string list \<Rightarrow> bool" where
  "endswith s sufs = (\<exists>suf \<in> set sufs. length suf \<le> length s \<and> drop (length s - length suf) s = suf)"

text \<open>\<open>s.find(c)\<close> and \<open>s.rfind(c)\<close> for a one-character \<open>c\<close>: the index, or \<open>-1\<close>.\<close>

fun str_find :: "char \<Rightarrow> string \<Rightarrow> int" where
  "str_find c [] = -1"
| "str_find c (x # xs) =
     (if x = c then 0 else (let r = str_find c xs in if r = -1 then -1 else r + 1))"

definition str_rfind :: "char \<Rightarrow> string \<Rightarrow> int" where
  "str_rfind c s = (let r = str_find c (rev s) in if r = -1 then -1 else int (length s) - 1 - r)"

text \<open>\<open>s[i:j]\<close>: a negative index counts from the end, and both are clamped to the text.\<close>

definition slice_index :: "'a list \<Rightarrow> int \<Rightarrow> nat" where
  "slice_index s i = (if i < 0 then nat (int (length s) + i) else min (nat i) (length s))"

definition py_slice :: "'a list \<Rightarrow> int \<Rightarrow> int \<Rightarrow> 'a list" where
  "py_slice s i j = take (slice_index s j - slice_index s i) (drop (slice_index s i) s)"

text \<open>The decimal digits of \<open>n\<close>, as \<open>str(n)\<close> writes them.\<close>

fun show_nat :: "nat \<Rightarrow> string" where
  "show_nat n =
     (if n < 10 then [''0123456789'' ! n]
      else show_nat (n div 10) @ [''0123456789'' ! (n mod 10)])"

section \<open>The document and the world\<close>

text \<open>
  The rendering library is an external collaborator: the document is the sequence of
  calls made on it, each with the arguments the source passes (the defaults of the
  library written out), and what the library paints for them is outside the model.
  It calls \<open>header\<close> and \<open>footer\<close> itself at page boundaries. A call that the
  library refuses is an exception of the function that makes it.
\<close>

datatype op =
    AliasNbPages
  | AddPage
  | SetFont string string nat
  | SetFillColor nat nat nat
  | SetTextColor nat nat nat
  | Cell nat nat json nat nat string nat
  | MultiCell nat nat string
  | Ln "nat option"

datatype file_content = Bytes "nat list" | Pdf "op list"

record world =
  files :: "path \<Rightarrow> file_content option"

record image_part =
  mime_type :: string
  data :: file_content

datatype image = ImagePath path | PilImage "nat list"

text \<open>
  What the program takes from outside: the clock, the temporary directory, the faults of
  the file system, the model service, and the library functions \<open>json.loads\<close>,
  \<open>json.dumps(_, indent=2)\<close>, \<open>str\<close> on a value that is not a string, \<open>str\<close> on an
  exception, and the truth value of a float.
\<close>

record env =
  tmpdir :: path
  now_isoformat :: string
  now_image_stamp :: string
  now_pdf_stamp :: string
  now_generated_on :: string
  now_default_stamp :: string
  makedirs_fault :: "path \<Rightarrow> exn option"
  read_fault :: "path \<Rightarrow> exn option"
  write_fault :: "path \<Rightarrow> exn option"
  jpeg_encode :: "nat list \<Rightarrow> exn + nat list"
  output_fault :: "op list \<Rightarrow> path \<Rightarrow> exn option"
  generate_content :: "string \<Rightarrow> image_part \<Rightarrow> string \<Rightarrow> exn + string"
  json_loads :: "string \<Rightarrow> exn + json"
  json_dumps :: "json \<Rightarrow> string"
  repr_value :: "json \<Rightarrow> string"
  exn_text :: "exn \<Rightarrow> string"
  float_truthy :: "pyfloat \<Rightarrow> bool"

definition str_of :: "env \<Rightarrow> json \<Rightarrow> string" where
  "str_of env v = (case v of JStr s \<Rightarrow> s | _ \<Rightarrow> repr_value env v)"

fun truthy :: "env \<Rightarrow> json \<Rightarrow> bool" where
  "truthy env JNull = False"
| "truthy env (JBool b) = b"
| "truthy env (JInt i) = (i \<noteq> 0)"
| "truthy env (JFloat f) = float_truthy env f"
| "truthy env (JStr s) = (s \<noteq> [])"
| "truthy env (JArr xs) = (xs \<noteq> [])"
| "truthy env (JObj kvs) = (kvs \<noteq> [])"

definition read_bytes :: "env \<Rightarrow> world \<Rightarrow> path \<Rightarrow> exn + file_content" where
  "read_bytes env w p =
     (case read_fault env p of
        Some e \<Rightarrow> Inl e
      | None \<Rightarrow> (case files w p of None \<Rightarrow> Inl (OSError p) | Some f \<Rightarrow> Inr f))"

definition write_file :: "env \<Rightarrow> world \<Rightarrow> path \<Rightarrow> file_content \<Rightarrow> exn + world" where
  "write_file env w p f =
     (case write_fault env p of
        Some e \<Rightarrow> Inl e
      | None \<Rightarrow> Inr (w\<lparr>files := (files w)(p \<mapsto> f)\<rparr>))"

definition path_join :: "path \<Rightarrow> string \<Rightarrow> path" where
  "path_join d name = d @ ''/'' @ name"

section \<open>blood_report_analyser.py\<close>

definition image_format :: "env \<Rightarrow> world \<Rightarrow> path \<Rightarrow> exn + image_part list" where
  "image_format env w image_path =
     bnd (read_bytes env w image_path) (\<lambda>bytes.
       Inr [\<lparr>mime_type =
               (if endswith (lower image_path) [''.jpg'', ''.jpeg'']
                then ''image/jpeg'' else ''image/png''),
             data = bytes\<rparr>])"

definition system_prompt :: string where
  "system_prompt = ''You are a hematology expert. Analyze this blood test report.''"

definition user_prompt :: string where
  \<open>user_prompt =
     ''Extract the following information from this blood test report:\<newline>'' @
     ''    \<newline>'' @
     ''    1. Patient details (name, age, gender, ID)\<newline>'' @
     ''    2. Test date\<newline>'' @
     ''    3. The following blood parameters with their values and reference ranges:\<newline>'' @
     ''       - Hemoglobin (Hb)\<newline>'' @
     ''       - RBC Count\<newline>'' @
     ''       - WBC Count\<newline>'' @
     ''       - Platelet Count\<newline>'' @
     ''       - HCT, MCV, MCH, MCHC\<newline>'' @
     ''       - WBC Differential (Neutrophils, Lymphocytes, etc.)\<newline>'' @
     ''    \<newline>'' @
     ''    Summarize the findings in simple language. Mention if values are normal or abnormal.\<newline>'' @
     ''    \<newline>'' @
     ''    Format your response as a JSON object with the following structure:\<newline>'' @
     ''    {\<newline>'' @
     ''        "patient_details": {\<newline>'' @
     ''            "name": "",\<newline>'' @
     ''            "age": "",\<newline>'' @
     ''            "gender": "",\<newline>'' @
     ''            "id": ""\<newline>'' @
     ''        },\<newline>'' @
     ''        "test_date": "",\<newline>'' @
     ''        "blood_parameters": [\<newline>'' @
     ''            {"parameter": "Hemoglobin", "value": "", "reference_range": "", "status": "normal/abnormal"},\<newline>'' @
     ''            ...\<newline>'' @
     ''        ],\<newline>'' @
     ''        "summary": [\<newline>'' @
     ''            "Point 1",\<newline>'' @
     ''            "Point 2",\<newline>'' @
     ''            ...\<newline>'' @
     ''        ],\<newline>'' @
     ''        "disclaimer": [\<newline>'' @
     ''            "This analysis is for informational purposes only and does not constitute medical advice.",\<newline>'' @
     ''            "Please consult with a healthcare professional for proper medical diagnosis and treatment.",\<newline>'' @
     ''            "Results may vary and this tool cannot substitute for laboratory testing.",\<newline>'' @
     ''            "This report was generated using AI analysis of an uploaded image.",\<newline>'' @
     ''            "Some values may not be accurately extracted if the image quality is poor.",\<newline>'' @
     ''            "Always verify results with your original laboratory report."\<newline>'' @
     ''        ]\<newline>'' @
     ''    }\<newline>'' @
     ''    \<newline>'' @
     ''    Only return the JSON object without any additional text.\<newline>'' @
     ''    ''\<close>

definition default_disclaimer :: json where
  "default_disclaimer = JArr
     [JStr ''This analysis is for informational purposes only and does not constitute medical advice.'',
      JStr ''Please consult with a healthcare professional for proper medical diagnosis and treatment.'',
      JStr ''Results may vary and this tool cannot substitute for laboratory testing.'',
      JStr ''This report was generated using AI analysis of an uploaded image.'',
      JStr ''Some values may not be accurately extracted if the image quality is poor.'',
      JStr ''Always verify results with your original laboratory report.'']"

text \<open>The two error records with a \<open>raw_response\<close>, and the one of the outer handler.\<close>

definition parse_error_record :: "string \<Rightarrow> string \<Rightarrow> string \<Rightarrow> json" where
  "parse_error_record msg raw ts =
     JObj [(''error'', JStr msg), (''raw_response'', JStr raw), (''timestamp'', JStr ts)]"

definition exception_record :: "string \<Rightarrow> string \<Rightarrow> json" where
  "exception_record msg ts = JObj [(''error'', JStr msg), (''timestamp'', JStr ts)]"

text \<open>The keys of a dict, in order.\<close>

fun keys :: "json \<Rightarrow> string list" where
  "keys (JObj kvs) = remdups (map fst kvs)"
| "keys _ = []"

text \<open>The piece of the reply from its first \<open>{\<close> through its last \<open>}\<close>.\<close>

definition brace_slice :: "string \<Rightarrow> string" where
  "brace_slice text = py_slice text (str_find CHR ''{'' text) (str_rfind CHR ''}'' text + 1)"

text \<open>
  The body of \<open>analyze_blood_report\<close> from \<open>json_start_idx\<close> on, applied to
  \<open>response.text\<close>: what the specification calls the Normalizer. Every \<open>return\<close> there is
  \<open>json.dumps(record, indent=2)\<close>; \<open>normalize_record\<close> is the record and \<open>normalize\<close>
  its serialisation. An \<open>Inl\<close> is an exception that leaves the inner \<open>try\<close> and reaches
  the outer handler.
\<close>

definition normalize_record :: "env \<Rightarrow> string \<Rightarrow> exn + json" where
  "normalize_record env text =
     (let json_start_idx = str_find CHR ''{'' text;
          json_end_idx = str_rfind CHR ''}'' text + 1
      in if json_start_idx = -1 \<or> json_end_idx = 0
         then Inr (parse_error_record ''Could not parse the blood report''
                     (py_slice text 0 500) (now_isoformat env))
         else
           (let json_response = py_slice text json_start_idx json_end_idx
            in case json_loads env json_response of
                 Inl JSONDecodeError \<Rightarrow>
                   Inr (parse_error_record ''Could not parse JSON response''
                          (py_slice json_response 0 500) (now_isoformat env))
               | Inl e \<Rightarrow> Inl e
               | Inr result \<Rightarrow>
                   bnd (py_setitem result ''analysis_timestamp'' (JStr (now_isoformat env)))
                     (\<lambda>result.
                   bnd (py_contains ''disclaimer'' result) (\<lambda>present.
                   if \<not> present then py_setitem result ''disclaimer'' default_disclaimer
                   else Inr result))))"

definition normalize :: "env \<Rightarrow> string \<Rightarrow> exn + string" where
  "normalize env text =
     bnd (normalize_record env text) (\<lambda>record. Inr (json_dumps env record))"

text \<open>The outer \<open>try\<close> block of \<open>analyze_blood_report\<close>, and the function with its handler.\<close>

definition analyze_try :: "env \<Rightarrow> world \<Rightarrow> path \<Rightarrow> exn + string" where
  "analyze_try env w image_path =
     bnd (image_format env w image_path) (\<lambda>image_info.
     bnd (case image_info of [] \<Rightarrow> Inl IndexError | part # _ \<Rightarrow> Inr part) (\<lambda>part.
     bnd (generate_content env system_prompt part user_prompt) (\<lambda>text.
     normalize env text)))"

definition analyze_blood_report :: "env \<Rightarrow> world \<Rightarrow> path \<Rightarrow> exn + string" where
  "analyze_blood_report env w image_path =
     (case analyze_try env w image_path of
        Inr s \<Rightarrow> Inr s
      | Inl e \<Rightarrow> Inr (json_dumps env (exception_record (exn_text env e) (now_isoformat env))))"

section \<open>pdf_generator.py\<close>

definition chapter_title :: "string \<Rightarrow> op list" where
  "chapter_title title =
     [SetFont ''Arial'' ''B'' 12,
      SetFillColor 200 220 255,
      Cell 0 6 (JStr title) 0 1 ''L'' 1,
      Ln (Some 4)]"

text \<open>
  \<open>self.cell(w, h, txt, border, ln, align, fill)\<close> with a value of the record as \<open>txt\<close>.
  The library draws a text and raises on every other value: a centred or right-aligned
  cell first measures the value, with \<open>len(txt)\<close> and a dict lookup of every \<open>txt[i]\<close>,
  and every cell then escapes it with \<open>txt.replace\<close>. So a number, a truth value or
  \<open>None\<close> has no length (\<open>TypeError\<close>), a list holding a list or a dict cannot be
  looked up (\<open>TypeError\<close>), a dict that is not empty has no item \<open>0\<close> (a \<open>KeyError\<close>
  for the index \<open>0\<close>), and whatever is left cannot be escaped (\<open>AttributeError\<close>).
  Cells whose text the source writes itself are given as \<open>Cell\<close> directly.
\<close>

fun unhashable :: "json \<Rightarrow> bool" where
  "unhashable (JArr xs) = True"
| "unhashable (JObj kvs) = True"
| "unhashable _ = False"

fun measure_fault :: "json \<Rightarrow> exn option" where
  "measure_fault (JStr s) = None"
| "measure_fault (JArr xs) = (if list_ex unhashable xs then Some TypeError else None)"
| "measure_fault (JObj kvs) = (if kvs = [] then None else Some (KeyError ''0''))"
| "measure_fault _ = Some TypeError"

fun cell :: "nat \<Rightarrow> nat \<Rightarrow> json \<Rightarrow> nat \<Rightarrow> nat \<Rightarrow> string \<Rightarrow> nat \<Rightarrow> exn + op list" where
  "cell w h (JStr s) border ln align fill = Inr [Cell w h (JStr s) border ln align fill]"
| "cell w h txt border ln align fill =
     (case (if align = ''C'' \<or> align = ''R'' then measure_fault txt else None) of
        Some e \<Rightarrow> Inl e
      | None \<Rightarrow> Inl AttributeError)"

definition labelled_row :: "string \<Rightarrow> json \<Rightarrow> exn + op list" where
  "labelled_row label v =
     bnd (cell 0 6 v 0 1 [] 0) (\<lambda>value_cell.
     Inr ([SetFont ''Arial'' ''B'' 10,
           Cell 30 6 (JStr label) 0 0 [] 0,
           SetFont ''Arial'' [] 10]
          @ value_cell))"

definition add_patient_details :: "env \<Rightarrow> json \<Rightarrow> exn + op list" where
  "add_patient_details env patient_details =
     bnd (py_get patient_details ''name'' JNull) (\<lambda>name.
     bnd (if truthy env name
          then bnd (py_get patient_details ''name'' (JStr ''N/A''))
                 (\<lambda>v. labelled_row ''Name:'' v)
          else Inr []) (\<lambda>name_ops.
     bnd (py_get patient_details ''age'' JNull) (\<lambda>age.
     bnd (if truthy env age then Inr True
          else bnd (py_get patient_details ''gender'' JNull)
                 (\<lambda>gender. Inr (truthy env gender))) (\<lambda>age_or_gender.
     bnd (if age_or_gender
          then bnd (py_get patient_details ''age'' (JStr ''N/A'')) (\<lambda>a.
               bnd (py_get patient_details ''gender'' (JStr ''N/A'')) (\<lambda>g.
               labelled_row ''Age/Gender:''
                 (JStr (str_of env a @ '' / '' @ str_of env g))))
          else Inr []) (\<lambda>age_ops.
     bnd (py_get patient_details ''id'' JNull) (\<lambda>ident.
     bnd (if truthy env ident
          then bnd (py_get patient_details ''id'' (JStr ''N/A''))
                 (\<lambda>v. labelled_row ''Patient ID:'' v)
          else Inr []) (\<lambda>id_ops.
     Inr (chapter_title ''Patient Details'' @ name_ops @ age_ops @ id_ops
            @ [Ln (Some 4)]))))))))"

definition add_test_date :: "env \<Rightarrow> json \<Rightarrow> exn + op list" where
  "add_test_date env test_date =
     (if truthy env test_date
      then bnd (labelled_row ''Test Date:'' test_date) (\<lambda>row. Inr (row @ [Ln (Some 4)]))
      else Inr [])"

text \<open>
  \<open>x[:30] + "..."\<close>: on a string the first 30 characters and the dots; a list cannot
  take a string on its right and a dict cannot be sliced (the interpreter's exception
  there is recorded as a \<open>TypeError\<close>).
\<close>

fun truncated_name :: "json \<Rightarrow> exn + json" where
  "truncated_name (JStr s) = Inr (JStr (py_slice s 0 30 @ ''...''))"
| "truncated_name _ = Inl TypeError"

text \<open>The body of the loop of \<open>add_blood_parameters\<close>: one table row.\<close>

definition parameter_row :: "json \<Rightarrow> exn + op list" where
  "parameter_row param =
     bnd (py_getitem param ''parameter'') (\<lambda>name.
     bnd (py_len name) (\<lambda>n.
     bnd (if n > 30 then truncated_name name else Inr name) (\<lambda>shown.
     bnd (cell 60 7 shown 1 0 [] 0) (\<lambda>name_cell.
     bnd (py_get param ''value'' (JStr ''N/A'')) (\<lambda>v.
     bnd (cell 30 7 v 1 0 ''C'' 0) (\<lambda>value_cell.
     bnd (py_get param ''reference_range'' (JStr ''N/A'')) (\<lambda>r.
     bnd (cell 60 7 r 1 0 ''C'' 0) (\<lambda>range_cell.
     bnd (py_get param ''status'' (JStr [])) (\<lambda>st.
     bnd (py_lower st) (\<lambda>status.
     Inr (name_cell @ value_cell @ range_cell
          @ (if status = ''abnormal''
             then [SetTextColor 255 0 0,
                   Cell 40 7 (JStr ''ABNORMAL'') 1 1 ''C'' 0,
                   SetTextColor 0 0 0]
             else [SetTextColor 0 128 0,
                   Cell 40 7 (JStr ''NORMAL'') 1 1 ''C'' 0,
                   SetTextColor 0 0 0]))))))))))))"

text \<open>A \<open>for\<close> loop whose body may raise: the first exception ends it.\<close>

fun for_each :: "('a \<Rightarrow> exn + 'b list) \<Rightarrow> 'a list \<Rightarrow> exn + 'b list" where
  "for_each body [] = Inr []"
| "for_each body (x # xs) =
     bnd (body x) (\<lambda>ys. bnd (for_each body xs) (\<lambda>zs. Inr (ys @ zs)))"

definition add_blood_parameters :: "json \<Rightarrow> exn + op list" where
  "add_blood_parameters blood_parameters =
     bnd (py_iter blood_parameters) (\<lambda>params.
     bnd (for_each parameter_row params) (\<lambda>rows.
     Inr (chapter_title ''Blood Parameters''
          @ [SetFont ''Arial'' ''B'' 10,
             Cell 60 7 (JStr ''Parameter'') 1 0 ''C'' 0,
             Cell 30 7 (JStr ''Value'') 1 0 ''C'' 0,
             Cell 60 7 (JStr ''Reference Range'') 1 0 ''C'' 0,
             Cell 40 7 (JStr ''Status'') 1 1 ''C'' 0,
             SetFont ''Arial'' [] 10]
          @ rows @ [Ln (Some 4)])))"

text \<open>The texts \<open>f"{idx}. {point}"\<close> of \<open>enumerate(points, idx)\<close>.\<close>

fun numbered :: "env \<Rightarrow> nat \<Rightarrow> json list \<Rightarrow> string list" where
  "numbered env idx [] = []"
| "numbered env idx (point # points) =
     (show_nat idx @ ''. '' @ str_of env point) # numbered env (Suc idx) points"

definition add_summary :: "env \<Rightarrow> json \<Rightarrow> exn + op list" where
  "add_summary env summary =
     bnd (py_iter summary) (\<lambda>points.
     Inr (chapter_title ''Summary''
          @ concat (map (\<lambda>t. [SetFont ''Arial'' [] 10, MultiCell 0 6 t])
                      (numbered env 1 points))
          @ [Ln (Some 4)]))"

definition add_disclaimer :: "env \<Rightarrow> json \<Rightarrow> exn + op list" where
  "add_disclaimer env disclaimer =
     bnd (py_iter disclaimer) (\<lambda>points.
     Inr (chapter_title ''Disclaimer''
          @ [SetFont ''Arial'' ''I'' 10, SetTextColor 128 128 128]
          @ map (\<lambda>t. MultiCell 0 5 t) (numbered env 1 points)
          @ [SetTextColor 0 0 0, Ln (Some 4)]))"

text \<open>\<open>if key in data: f(data[key])\<close>, the shape of every section of \<open>generate_pdf\<close>.\<close>

definition section_if_present ::
  "string \<Rightarrow> json \<Rightarrow> (json \<Rightarrow> exn + 'b list) \<Rightarrow> exn + 'b list" where
  "section_if_present key d f =
     bnd (py_contains key d) (\<lambda>present.
       if present then bnd (py_getitem d key) f else Inr [])"

datatype json_input = AsText string | AsData json

text \<open>What \<open>generate_pdf\<close> puts on the page before the sections.\<close>

definition page_start :: "env \<Rightarrow> op list" where
  "page_start env =
     [AliasNbPages,
      AddPage,
      SetFont ''Arial'' ''I'' 10,
      Cell 0 10 (JStr (''Generated on: '' @ now_generated_on env)) 0 1 [] 0,
      Ln (Some 4)]"

definition render :: "env \<Rightarrow> json \<Rightarrow> exn + op list" where
  "render env d =
     bnd (section_if_present ''patient_details'' d (add_patient_details env)) (\<lambda>s1.
     bnd (section_if_present ''test_date'' d (add_test_date env)) (\<lambda>s2.
     bnd (section_if_present ''blood_parameters'' d add_blood_parameters) (\<lambda>s3.
     bnd (section_if_present ''summary'' d (add_summary env)) (\<lambda>s4.
     bnd (section_if_present ''disclaimer'' d (add_disclaimer env)) (\<lambda>s5.
     Inr (page_start env @ s1 @ s2 @ s3 @ s4 @ s5))))))"

text \<open>\<open>pdf.output(path)\<close>: the document is written to the path, or the call raises.\<close>

definition pdf_output :: "env \<Rightarrow> world \<Rightarrow> op list \<Rightarrow> path \<Rightarrow> exn + path \<times> world" where
  "pdf_output env w pdf p =
     (case output_fault env pdf p of
        Some e \<Rightarrow> Inl e
      | None \<Rightarrow> Inr (p, w\<lparr>files := (files w)(p \<mapsto> Pdf pdf)\<rparr>))"

text \<open>\<open>json.loads(json_data)\<close> when \<open>json_data\<close> is a string, else \<open>json_data\<close> itself.\<close>

definition parsed_input :: "env \<Rightarrow> json_input \<Rightarrow> exn + json" where
  "parsed_input env json_data =
     (case json_data of AsText s \<Rightarrow> json_loads env s | AsData d \<Rightarrow> Inr d)"

definition generate_pdf ::
  "env \<Rightarrow> world \<Rightarrow> json_input \<Rightarrow> path option \<Rightarrow> exn + path \<times> world" where
  "generate_pdf env w json_data output_path =
     bnd (parsed_input env json_data) (\<lambda>d.
     bnd (render env d) (\<lambda>pdf.
       (case output_path of
          Some p \<Rightarrow>
            if p \<noteq> [] then pdf_output env w pdf p
            else pdf_output env w pdf
                   (''blood_report_analysis_'' @ now_default_stamp env @ ''.pdf'')
        | None \<Rightarrow>
            pdf_output env w pdf
              (''blood_report_analysis_'' @ now_default_stamp env @ ''.pdf''))))"

section \<open>app.py\<close>

definition join_lines :: "string list \<Rightarrow> string" where
  "join_lines ls = concat (case ls of [] \<Rightarrow> [] | l # rest \<Rightarrow> l # map (\<lambda>x. CHR 0x0A # x) rest)"

definition display_patient_details :: "env \<Rightarrow> json \<Rightarrow> exn + string list" where
  "display_patient_details env pd =
     bnd (py_get pd ''name'' JNull) (\<lambda>name.
     bnd (if truthy env name
          then bnd (py_getitem pd ''name'') (\<lambda>v. Inr [''**Name:** '' @ str_of env v])
          else Inr []) (\<lambda>l1.
     bnd (py_get pd ''age'' JNull) (\<lambda>age.
     bnd (if truthy env age
          then bnd (py_getitem pd ''age'') (\<lambda>v. Inr [''**Age:** '' @ str_of env v])
          else Inr []) (\<lambda>l2.
     bnd (py_get pd ''gender'' JNull) (\<lambda>gender.
     bnd (if truthy env gender
          then bnd (py_getitem pd ''gender'') (\<lambda>v. Inr [''**Gender:** '' @ str_of env v])
          else Inr []) (\<lambda>l3.
     bnd (py_get pd ''id'' JNull) (\<lambda>ident.
     bnd (if truthy env ident
          then bnd (py_getitem pd ''id'') (\<lambda>v. Inr [''**ID:** '' @ str_of env v])
          else Inr []) (\<lambda>l4.
     Inr ([''## Patient Details''] @ l1 @ l2 @ l3 @ l4 @ [[]])))))))))"

definition display_parameter :: "env \<Rightarrow> json \<Rightarrow> exn + string list" where
  "display_parameter env param =
     bnd (py_get param ''status'' (JStr [])) (\<lambda>st.
     bnd (py_lower st) (\<lambda>status.
     bnd (py_getitem param ''parameter'') (\<lambda>name.
     bnd (py_get param ''value'' (JStr ''N/A'')) (\<lambda>v.
     bnd (py_get param ''reference_range'' (JStr ''N/A'')) (\<lambda>r.
     Inr [''**'' @ str_of env name @ '':** '' @ str_of env v @ '' ''
          @ ''(Reference: '' @ str_of env r @ '') ''
          @ (if status = ''abnormal'' then ''[ABNORMAL]'' else ''[NORMAL]'')])))))"

definition format_json_for_display :: "env \<Rightarrow> json \<Rightarrow> exn + string" where
  "format_json_for_display env d =
     bnd (section_if_present ''patient_details'' d (display_patient_details env)) (\<lambda>o1.
     bnd (section_if_present ''test_date'' d
            (\<lambda>v. Inr [''**Test Date:** '' @ str_of env v, []])) (\<lambda>o2.
     bnd (section_if_present ''blood_parameters'' d (\<lambda>bp.
            bnd (py_iter bp) (\<lambda>params.
            bnd (for_each (display_parameter env) params) (\<lambda>rows.
            Inr ([''## Blood Parameters''] @ rows @ [[]]))))) (\<lambda>o3.
     bnd (section_if_present ''summary'' d (\<lambda>s.
            bnd (py_iter s) (\<lambda>points.
            Inr ([''## Summary''] @ numbered env 1 points @ [[]])))) (\<lambda>o4.
     bnd (section_if_present ''disclaimer'' d (\<lambda>s.
            bnd (py_iter s) (\<lambda>points.
            Inr ([''## Disclaimer''] @ numbered env 1 points)))) (\<lambda>o5.
     Inr (join_lines (o1 @ o2 @ o3 @ o4 @ o5)))))))"

text \<open>
  The image is stored at \<open>img_path\<close>: a path is copied by \<open>shutil.copy\<close>, a bitmap is
  encoded and written by \<open>image.save\<close>.
\<close>

definition save_upload :: "env \<Rightarrow> world \<Rightarrow> image \<Rightarrow> path \<Rightarrow> exn + world" where
  "save_upload env w img img_path =
     (case img of
        ImagePath src \<Rightarrow> bnd (read_bytes env w src) (\<lambda>f. write_file env w img_path f)
      | PilImage pixels \<Rightarrow>
          bnd (jpeg_encode env pixels) (\<lambda>bytes. write_file env w img_path (Bytes bytes)))"

type_synonym outputs = "string \<times> string option \<times> path option"

text \<open>The temporary directory and the two file names of a run.\<close>

definition temp_dir :: "env \<Rightarrow> path" where
  "temp_dir env = path_join (tmpdir env) ''blood_report_analyzer''"

definition img_path :: "env \<Rightarrow> path" where
  "img_path env = path_join (temp_dir env) (''blood_report_'' @ now_image_stamp env @ ''.jpg'')"

definition pdf_path :: "env \<Rightarrow> path" where
  "pdf_path env =
     path_join (temp_dir env) (''blood_report_analysis_'' @ now_pdf_stamp env @ ''.pdf'')"

text \<open>
  The \<open>try\<close> block of \<open>process_image\<close>. An \<open>Inl\<close> carries the exception with the world
  as it was when the exception was raised.
\<close>

definition process_image_body ::
  "env \<Rightarrow> world \<Rightarrow> image \<Rightarrow> exn \<times> world + outputs \<times> world" where
  "process_image_body env w img =
     (case save_upload env w img (img_path env) of
        Inl e \<Rightarrow> Inl (e, w)
      | Inr w1 \<Rightarrow>
          (case analyze_blood_report env w1 (img_path env) of
             Inl e \<Rightarrow> Inl (e, w1)
           | Inr json_data \<Rightarrow>
               (case generate_pdf env w1 (AsText json_data) (Some (pdf_path env)) of
                  Inl e \<Rightarrow> Inl (e, w1)
                | Inr (_, w2) \<Rightarrow>
                    (let formatted_output =
                           (case bnd (json_loads env json_data)
                                   (format_json_for_display env) of
                              Inl _ \<Rightarrow> json_data
                            | Inr s \<Rightarrow> s)
                     in Inr ((formatted_output, Some json_data, Some (pdf_path env)), w2)))))"

text \<open>
  \<open>process_image\<close>: \<open>os.makedirs\<close> runs before the \<open>try\<close>, so its exception leaves the
  function; every exception of the \<open>try\<close> block becomes the \<open>"Error: ..."\<close> answer.
\<close>

definition process_image :: "env \<Rightarrow> world \<Rightarrow> image option \<Rightarrow> exn + outputs \<times> world" where
  "process_image env w upload =
     (case upload of
        None \<Rightarrow> Inr ((''Please upload a blood test report image.'', None, None), w)
      | Some img \<Rightarrow>
          (case makedirs_fault env (temp_dir env) of
             Some e \<Rightarrow> Inl e
           | None \<Rightarrow>
               (case process_image_body env w img of
                  Inl (e, w') \<Rightarrow> Inr ((''Error: '' @ exn_text env e, None, None), w')
                | Inr r \<Rightarrow> Inr r)))"

text \<open>What a run that changes the world returned, and what it left at a path.\<close>

definition returned :: "exn + 'a \<times> world \<Rightarrow> exn + 'a" where
  "returned r = map_sum id fst r"

definition left_at :: "exn + 'a \<times> world \<Rightarrow> path \<Rightarrow> file_content option" where
  "left_at r p = (case r of Inl _ \<Rightarrow> None | Inr (_, w) \<Rightarrow> files w p)"

section \<open>Sample environments\<close>

text \<open>
  A fault-free environment for concrete runs: the model service gives one fixed answer,
  and \<open>json.loads\<close> and \<open>json.dumps\<close> follow a finite table of texts and their values
  (a text outside the table is not JSON).
\<close>

definition sample_exn_text :: "exn \<Rightarrow> string" where
  "sample_exn_text e =
     (case e of
        JSONDecodeError \<Rightarrow> ''Expecting value''
      | KeyError k \<Rightarrow> CHR 0x27 # k @ [CHR 0x27]
      | TypeError \<Rightarrow> ''unsupported operand''
      | AttributeError \<Rightarrow> ''no such attribute''
      | IndexError \<Rightarrow> ''list index out of range''
      | OSError m \<Rightarrow> m
      | ServiceError m \<Rightarrow> m)"

definition sample_env :: "exn + string \<Rightarrow> (string \<times> json) list \<Rightarrow> env" where
  "sample_env reply table =
     \<lparr>tmpdir = ''/tmp'',
      now_isoformat = ''2024-05-01T10:00:01'',
      now_image_stamp = ''20240501100000'',
      now_pdf_stamp = ''20240501100002'',
      now_generated_on = ''May 01, 2024, 10:00'',
      now_default_stamp = ''20240501_100002'',
      makedirs_fault = (\<lambda>_. None),
      read_fault = (\<lambda>_. None),
      write_fault = (\<lambda>_. None),
      jpeg_encode = Inr,
      output_fault = (\<lambda>_ _. None),
      generate_content = (\<lambda>_ _ _. reply),
      json_loads = (\<lambda>s. case map_of table s of None \<Rightarrow> Inl JSONDecodeError | Some v \<Rightarrow> Inr v),
      json_dumps = (\<lambda>v. case map_of (map (\<lambda>(s, v). (v, s)) table) v of
                           None \<Rightarrow> ''null'' | Some s \<Rightarrow> s),
      repr_value = (\<lambda>_. ''?''),
      exn_text = sample_exn_text,
      float_truthy = (\<lambda>_. True)\<rparr>"

definition world_with :: "path \<Rightarrow> file_content \<Rightarrow> world" where
  "world_with p f = \<lparr>files = [p \<mapsto> f]\<rparr>"

definition empty_world :: world where
  "empty_world = \<lparr>files = Map.empty\<rparr>"

text \<open>
  Two runs: the model service refuses the call, and the model answers with prose that
  holds no brace. The tables give the texts \<open>json.dumps(_, indent=2)\<close> writes for the
  two error records.
\<close>

definition quota_json :: string where
  \<open>quota_json =
     ''{\<newline>  "error": "429 quota exceeded",\<newline>  "timestamp": "2024-05-01T10:00:01"\<newline>}''\<close>

definition quota_env :: env where
  "quota_env =
     sample_env (Inl (ServiceError ''429 quota exceeded''))
       [(quota_json, exception_record ''429 quota exceeded'' ''2024-05-01T10:00:01'')]"

definition unreadable_json :: string where
  \<open>unreadable_json =
     ''{\<newline>  "error": "Could not parse the blood report",\<newline>  "raw_response": "I cannot read this image.",\<newline>  "timestamp": "2024-05-01T10:00:01"\<newline>}''\<close>

definition unreadable_env :: env where
  "unreadable_env =
     sample_env (Inr ''I cannot read this image.'')
       [(unreadable_json,
         parse_error_record ''Could not parse the blood report'' ''I cannot read this image.''
           ''2024-05-01T10:00:01'')]"

text \<open>Three rows of a parameter table: a full one, a bare one, and one with no name.\<close>

definition hemoglobin_entry :: "(string \<times> json) list" where
  "hemoglobin_entry =
     [(''parameter'', JStr ''Hemoglobin''), (''value'', JStr ''10''),
      (''reference_range'', JStr ''13-17''), (''status'', JStr ''Abnormal'')]"

definition wbc_entry :: "(string \<times> json) list" where
  "wbc_entry = [(''parameter'', JStr ''WBC Count'')]"

definition nameless_entry :: "(string \<times> json) list" where
  "nameless_entry = [(''value'', JStr ''4.9''), (''status'', JStr ''normal'')]"

text \<open>A row whose status is \<open>null\<close>.\<close>

definition null_status_entry :: "(string \<times> json) list" where
  "null_status_entry = [(''parameter'', JStr ''Hemoglobin''), (''status'', JNull)]"

section \<open>Facts about the Python layer\<close>

lemma str_find_range: "-1 \<le> str_find c s \<and> str_find c s < int (length s)"
  by (induction s) (auto simp: Let_def)

lemma str_find_none: "(str_find c s = -1) = (c \<notin> set s)"
proof (induction s)
  case Nil
  show ?case by simp
next
  case (Cons x xs)
  have "-1 \<le> str_find c xs" using str_find_range[of c xs] by simp
  with Cons show ?case by (auto simp: Let_def)
qed

lemma str_rfind_none: "(str_rfind c s + 1 = 0) = (c \<notin> set s)"
  using str_find_range[of c "rev s"] str_find_none[of c "rev s"]
  by (auto simp: str_rfind_def Let_def)

lemma py_slice_prefix: "py_slice s 0 (int n) = take n s"
  by (cases "n \<le> length s") (simp_all add: py_slice_def slice_index_def min_def)

lemma py_slice_500: "py_slice s 0 500 = take 500 s"
  using py_slice_prefix[of s 500] by simp

lemma endswith_suffix: "endswith s sufs = (\<exists>suf \<in> set sufs. suffix suf s)"
proof -
  have "(length suf \<le> length s \<and> drop (length s - length suf) s = suf) = suffix suf s" for suf
  proof
    assume a: "length suf \<le> length s \<and> drop (length s - length suf) s = suf"
    then have "s = take (length s - length suf) s @ suf" by (metis append_take_drop_id)
    then show "suffix suf s" by (metis suffixI)
  next
    assume "suffix suf s"
    then obtain p where "s = p @ suf" by (auto simp: suffix_def)
    then show "length suf \<le> length s \<and> drop (length s - length suf) s = suf" by simp
  qed
  then show ?thesis by (simp add: endswith_def)
qed

lemmas lower_eval = lower_def lower_char_def capital_letters_def small_letters_def

section \<open>The MIME tag of the image part\<close>

text \<open>
  C8. The claim reads: the payload is tagged \<open>image/jpeg\<close> unless the file name suggests
  PNG, so a name ending in \<open>.bmp\<close> is tagged \<open>image/jpeg\<close>. The source decides the other
  way round, and \<open>scan.bmp\<close> is tagged \<open>image/png\<close>.
\<close>

theorem bmp_is_tagged_png:
  "image_format (sample_env (Inr []) []) (world_with ''scan.bmp'' (Bytes [66, 77])) ''scan.bmp''
     = Inr [\<lparr>mime_type = ''image/png'', data = Bytes [66, 77]\<rparr>]"
  by (simp add: image_format_def bnd_def read_bytes_def sample_env_def world_with_def
      endswith_def lower_eval)

text \<open>
  C8, as the source has it: whenever \<open>image_format\<close> returns, it returns one part, holding
  the bytes read at the path, and the part is tagged \<open>image/jpeg\<close> exactly when the
  lower-cased path ends in \<open>.jpg\<close> or \<open>.jpeg\<close>; every other path is tagged \<open>image/png\<close>.
\<close>

theorem image_format_mime:
  assumes "image_format env w image_path = Inr parts"
  shows "\<exists>bytes. read_bytes env w image_path = Inr bytes \<and>
           parts = [\<lparr>mime_type =
                       (if suffix ''.jpg'' (lower image_path) \<or> suffix ''.jpeg'' (lower image_path)
                        then ''image/jpeg'' else ''image/png''),
                     data = bytes\<rparr>]"
  using assms
  by (auto simp: image_format_def bnd_def endswith_suffix split: sum.splits)

theorem image_format_mime_witness:
  "image_format (sample_env (Inr []) []) (world_with ''report.JPEG'' (Bytes [255, 216]))
       ''report.JPEG''
     = Inr [\<lparr>mime_type = ''image/jpeg'', data = Bytes [255, 216]\<rparr>]
   \<and> (\<exists>bytes. read_bytes (sample_env (Inr []) []) (world_with ''report.JPEG'' (Bytes [255, 216]))
                  ''report.JPEG'' = Inr bytes
         \<and> [\<lparr>mime_type = ''image/jpeg'', data = Bytes [255, 216]\<rparr>]
           = [\<lparr>mime_type =
                  (if suffix ''.jpg'' (lower ''report.JPEG'') \<or> suffix ''.jpeg'' (lower ''report.JPEG'')
                   then ''image/jpeg'' else ''image/png''),
                data = bytes\<rparr>])"
proof -
  have h: "image_format (sample_env (Inr []) []) (world_with ''report.JPEG'' (Bytes [255, 216]))
             ''report.JPEG''
           = Inr [\<lparr>mime_type = ''image/jpeg'', data = Bytes [255, 216]\<rparr>]"
    by (simp add: image_format_def bnd_def read_bytes_def sample_env_def world_with_def
        endswith_def lower_eval)
  show ?thesis using h image_format_mime [OF h] by simp
qed

section \<open>The Normalizer\<close>

lemma str_find_append:
  "str_find c (a @ b) =
     (if c \<in> set a then str_find c a
      else if c \<in> set b then int (length a) + str_find c b else -1)"
proof (induction a)
  case Nil
  show ?case by (simp add: str_find_none)
next
  case (Cons x xs)
  have r: "c \<in> set b \<Longrightarrow> 0 \<le> str_find c b"
    using str_find_range[of c b] str_find_none[of c b] by auto
  show ?case using Cons r by (auto simp: Let_def str_find_none)
qed

lemma str_rfind_before:
  assumes "c \<notin> set q"
  shows "str_rfind c (p @ q) < int (length p)"
proof -
  have r: "-1 \<le> str_find c (rev p)" using str_find_range[of c "rev p"] by simp
  have n: "(str_find c (rev p) = -1) = (c \<notin> set p)" using str_find_none[of c "rev p"] by simp
  show ?thesis using assms r n
    by (auto simp: str_rfind_def Let_def str_find_append)
qed

lemma str_rfind_range: "-1 \<le> str_rfind c s \<and> str_rfind c s < int (length s)"
  using str_find_range[of c "rev s"] by (auto simp: str_rfind_def Let_def)

lemma str_find_first:
  "c \<in> set s \<Longrightarrow> str_find c s = int (length (takeWhile (\<lambda>x. x \<noteq> c) s))"
  by (induction s) (auto simp: Let_def str_find_none)

lemma brace_slice_empty:
  assumes "CHR ''{'' \<in> set text"
    and "CHR ''}'' \<notin> set (dropWhile (\<lambda>c. c \<noteq> CHR ''{'') text)"
  shows "brace_slice text = []"
proof -
  let ?p = "takeWhile (\<lambda>c. c \<noteq> CHR ''{'') text"
  let ?q = "dropWhile (\<lambda>c. c \<noteq> CHR ''{'') text"
  have i: "str_find CHR ''{'' text = int (length ?p)" using assms(1) by (rule str_find_first)
  have "str_rfind CHR ''}'' (?p @ ?q) < int (length ?p)" using assms(2) by (rule str_rfind_before)
  then have j: "str_rfind CHR ''}'' text + 1 \<le> int (length ?p)" by simp
  have l: "length ?p \<le> length text" by (rule length_takeWhile_le)
  have k: "0 \<le> str_rfind CHR ''}'' text + 1" using str_rfind_range[of "CHR ''}''" "text"] by simp
  show ?thesis using i j k l
    by (auto simp: brace_slice_def py_slice_def slice_index_def min_def)
qed

lemma normalize_record_no_braces:
  assumes "CHR ''{'' \<notin> set text \<or> CHR ''}'' \<notin> set text"
  shows "normalize_record env text =
           Inr (parse_error_record ''Could not parse the blood report'' (take 500 text)
                  (now_isoformat env))"
  using assms
  by (auto simp: normalize_record_def Let_def str_find_none str_rfind_none py_slice_500)

lemma normalize_record_braces:
  assumes "CHR ''{'' \<in> set text" and "CHR ''}'' \<in> set text"
  shows "normalize_record env text =
           (case json_loads env (brace_slice text) of
              Inl JSONDecodeError \<Rightarrow>
                Inr (parse_error_record ''Could not parse JSON response''
                       (take 500 (brace_slice text)) (now_isoformat env))
            | Inl e \<Rightarrow> Inl e
            | Inr result \<Rightarrow>
                bnd (py_setitem result ''analysis_timestamp'' (JStr (now_isoformat env)))
                  (\<lambda>result.
                bnd (py_contains ''disclaimer'' result) (\<lambda>present.
                if \<not> present then py_setitem result ''disclaimer'' default_disclaimer
                else Inr result)))"
  using assms
  by (auto simp: normalize_record_def Let_def str_find_none str_rfind_none py_slice_500
      brace_slice_def split: sum.splits exn.splits)

lemma map_of_dict_set: "map_of (dict_set k v kvs) = (map_of kvs)(k \<mapsto> v)"
  by (induction kvs) (auto simp: fun_eq_iff)

lemmas normalize_eval =
  normalize_def normalize_record_def Let_def str_rfind_def py_slice_def slice_index_def
  brace_slice_def bnd_def sample_env_def parse_error_record_def



text \<open>
  C4. The claim reads: every successfully normalized record carries a non-empty
  \<open>disclaimer\<close>, also when the reply supplies an empty list. The source tests only whether
  the key is there: a reply \<open>{"disclaimer": []}\<close> keeps its empty list.
\<close>

theorem empty_disclaimer_is_kept:
  \<open>normalize_record
     (sample_env (Inr []) [(''{"disclaimer": []}'', JObj [(''disclaimer'', JArr [])])])
     ''{"disclaimer": []}''
   = Inr (JObj [(''disclaimer'', JArr []),
                (''analysis_timestamp'', JStr ''2024-05-01T10:00:01'')])\<close>
  by (simp add: normalize_eval)

text \<open>
  C4, as the source has it: every successfully normalized record carries the key
  \<open>analysis_timestamp\<close> and the key \<open>disclaimer\<close>; the disclaimer is the list of six
  fixed sentences when the reply has no such key, and the reply's own value, whatever it
  is, when it has one.
\<close>

theorem normalized_record_keys:
  assumes "CHR ''{'' \<in> set text" and "CHR ''}'' \<in> set text"
    and "json_loads env (brace_slice text) = Inr (JObj obj)"
  shows "\<exists>record.
           normalize_record env text = Inr (JObj record)
         \<and> map_of record ''analysis_timestamp'' = Some (JStr (now_isoformat env))
         \<and> map_of record ''disclaimer'' =
             Some (case map_of obj ''disclaimer'' of None \<Rightarrow> default_disclaimer | Some d \<Rightarrow> d)
         \<and> py_len default_disclaimer = Inr 6"
  using assms
  by (auto simp: normalize_record_braces bnd_def map_of_dict_set default_disclaimer_def
      split: option.splits)

theorem normalized_record_keys_witness:
  \<open>CHR ''{'' \<in> set ''{"test_date": "2024-04-30"}''
   \<and> CHR ''}'' \<in> set ''{"test_date": "2024-04-30"}''
   \<and> json_loads
         (sample_env (Inr [])
            [(''{"test_date": "2024-04-30"}'', JObj [(''test_date'', JStr ''2024-04-30'')])])
         (brace_slice ''{"test_date": "2024-04-30"}'')
       = Inr (JObj [(''test_date'', JStr ''2024-04-30'')])
   \<and> normalize_record
         (sample_env (Inr [])
            [(''{"test_date": "2024-04-30"}'', JObj [(''test_date'', JStr ''2024-04-30'')])])
         ''{"test_date": "2024-04-30"}''
       = Inr (JObj [(''test_date'', JStr ''2024-04-30''),
                    (''analysis_timestamp'', JStr ''2024-05-01T10:00:01''),
                    (''disclaimer'', default_disclaimer)])
   \<and> py_len default_disclaimer = Inr 6\<close>
proof -
  let ?env = \<open>sample_env (Inr [])
            [(''{"test_date": "2024-04-30"}'', JObj [(''test_date'', JStr ''2024-04-30'')])]\<close>
  let ?text = \<open>''{"test_date": "2024-04-30"}''\<close>
  have h1: "CHR ''{'' \<in> set ?text" by simp
  have h2: "CHR ''}'' \<in> set ?text" by simp
  have h3: "json_loads ?env (brace_slice ?text) = Inr (JObj [(''test_date'', JStr ''2024-04-30'')])"
    by (simp add: normalize_eval)
  show ?thesis using normalized_record_keys [OF h1 h2 h3] h3
    by (simp add: normalize_eval)
qed

text \<open>
  C5. When the reply holds no \<open>{\<close>, or no \<open>}\<close> after its first \<open>{\<close>, \<open>normalize\<close>
  returns the serialised error record: a dict with the keys \<open>error\<close>, \<open>raw_response\<close>
  and \<open>timestamp\<close>, whose \<open>raw_response\<close> is a prefix of the reply of at most 500
  characters. It is the first 500 characters when a brace is missing altogether, and the
  empty text when a \<open>}\<close> occurs only before the first \<open>{\<close> (the piece between them is
  then empty, and \<open>json.loads\<close> rejects the empty text).
\<close>

theorem normalize_without_braces:
  assumes "CHR ''{'' \<notin> set text \<or> CHR ''}'' \<notin> set (dropWhile (\<lambda>c. c \<noteq> CHR ''{'') text)"
    and "json_loads env [] = Inl JSONDecodeError"
  shows "\<exists>msg raw result.
           normalize_record env text = Inr result
         \<and> normalize env text = Inr (json_dumps env result)
         \<and> result = parse_error_record msg raw (now_isoformat env)
         \<and> keys result = [''error'', ''raw_response'', ''timestamp'']
         \<and> py_getitem result ''error'' = Inr (JStr msg)
         \<and> py_getitem result ''raw_response'' = Inr (JStr raw)
         \<and> py_getitem result ''timestamp'' = Inr (JStr (now_isoformat env))
         \<and> msg = (if CHR ''{'' \<in> set text \<and> CHR ''}'' \<in> set text
                   then ''Could not parse JSON response''
                   else ''Could not parse the blood report'')
         \<and> raw = (if CHR ''{'' \<in> set text \<and> CHR ''}'' \<in> set text then [] else take 500 text)
         \<and> length raw \<le> 500 \<and> prefix raw text"
proof (cases "CHR ''{'' \<in> set text \<and> CHR ''}'' \<in> set text")
  case True
  then have "CHR ''}'' \<notin> set (dropWhile (\<lambda>c. c \<noteq> CHR ''{'') text)" using assms(1) by simp
  then have e: "brace_slice text = []" using True brace_slice_empty by simp
  have "normalize_record env text =
          Inr (parse_error_record ''Could not parse JSON response'' [] (now_isoformat env))"
    using True e assms(2) by (simp add: normalize_record_braces)
  then show ?thesis using True by (auto simp: normalize_def bnd_def parse_error_record_def)
next
  case False
  then have "CHR ''{'' \<notin> set text \<or> CHR ''}'' \<notin> set text" by simp
  then have "normalize_record env text =
           Inr (parse_error_record ''Could not parse the blood report'' (take 500 text)
                  (now_isoformat env))" by (rule normalize_record_no_braces)
  then show ?thesis using False
    by (auto simp: normalize_def bnd_def take_is_prefix parse_error_record_def)
qed

text \<open>
  A reply of prose only, whose excerpt is the reply itself; and a reply whose closing
  brace comes first, whose record is the one of the failed parse.
\<close>

theorem normalize_without_braces_witness:
  "CHR ''{'' \<notin> set ''I cannot read this image.''
   \<and> json_loads (sample_env (Inr []) []) [] = Inl JSONDecodeError
   \<and> normalize_record (sample_env (Inr []) []) ''I cannot read this image.''
       = Inr (JObj [(''error'', JStr ''Could not parse the blood report''),
                    (''raw_response'', JStr ''I cannot read this image.''),
                    (''timestamp'', JStr ''2024-05-01T10:00:01'')])
   \<and> py_getitem (JObj [(''error'', JStr ''Could not parse the blood report''),
                    (''raw_response'', JStr ''I cannot read this image.''),
                    (''timestamp'', JStr ''2024-05-01T10:00:01'')]) ''raw_response''
       = Inr (JStr ''I cannot read this image.'')
   \<and> prefix ''I cannot read this image.'' ''I cannot read this image.''
   \<and> CHR ''}'' \<notin> set (dropWhile (\<lambda>c. c \<noteq> CHR ''{'') ''} then {'')
   \<and> normalize_record (sample_env (Inr []) []) ''} then {''
       = Inr (JObj [(''error'', JStr ''Could not parse JSON response''),
                    (''raw_response'', JStr []),
                    (''timestamp'', JStr ''2024-05-01T10:00:01'')])"
proof -
  let ?env = "sample_env (Inr []) []"
  have h1: "CHR ''{'' \<notin> set ''I cannot read this image.''
            \<or> CHR ''}'' \<notin> set (dropWhile (\<lambda>c. c \<noteq> CHR ''{'') ''I cannot read this image.'')"
    by simp
  have k1: "CHR ''{'' \<notin> set ''} then {''
            \<or> CHR ''}'' \<notin> set (dropWhile (\<lambda>c. c \<noteq> CHR ''{'') ''} then {'')" by simp
  have h2: "json_loads ?env [] = Inl JSONDecodeError"
    by (simp add: sample_env_def)
  have n: "now_isoformat ?env = ''2024-05-01T10:00:01''" by (simp add: sample_env_def)
  show ?thesis
    using normalize_without_braces [OF h1 h2] normalize_without_braces [OF k1 h2] h2 n
    by (simp add: parse_error_record_def)
qed

text \<open>
  C6. When the piece from the first \<open>{\<close> through the last \<open>}\<close> is not valid JSON,
  \<open>normalize\<close> returns the serialised error record whose key \<open>raw_response\<close> holds the
  first 500 characters of that piece, not of the whole reply.
\<close>

theorem normalize_parse_failure:
  assumes "CHR ''{'' \<in> set text" and "CHR ''}'' \<in> set text"
    and "json_loads env (brace_slice text) = Inl JSONDecodeError"
  shows "\<exists>result.
           normalize_record env text = Inr result
         \<and> normalize env text = Inr (json_dumps env result)
         \<and> result = parse_error_record ''Could not parse JSON response''
                      (take 500 (brace_slice text)) (now_isoformat env)
         \<and> keys result = [''error'', ''raw_response'', ''timestamp'']
         \<and> py_getitem result ''error'' = Inr (JStr ''Could not parse JSON response'')
         \<and> py_getitem result ''raw_response'' = Inr (JStr (take 500 (brace_slice text)))
         \<and> py_getitem result ''timestamp'' = Inr (JStr (now_isoformat env))
         \<and> length (take 500 (brace_slice text)) \<le> 500"
  using assms
  by (simp add: normalize_def normalize_record_braces bnd_def parse_error_record_def)

text \<open>
  Prose around a piece in braces that is not JSON.
\<close>

theorem normalize_parse_failure_witness:
  "CHR ''{'' \<in> set ''Values: {Hb: low} (see above)''
   \<and> CHR ''}'' \<in> set ''Values: {Hb: low} (see above)''
   \<and> json_loads (sample_env (Inr []) []) (brace_slice ''Values: {Hb: low} (see above)'')
       = Inl JSONDecodeError
   \<and> brace_slice ''Values: {Hb: low} (see above)'' = ''{Hb: low}''
   \<and> normalize_record (sample_env (Inr []) []) ''Values: {Hb: low} (see above)''
       = Inr (JObj [(''error'', JStr ''Could not parse JSON response''),
                    (''raw_response'', JStr ''{Hb: low}''),
                    (''timestamp'', JStr ''2024-05-01T10:00:01'')])
   \<and> py_getitem (JObj [(''error'', JStr ''Could not parse JSON response''),
                    (''raw_response'', JStr ''{Hb: low}''),
                    (''timestamp'', JStr ''2024-05-01T10:00:01'')]) ''raw_response''
       = Inr (JStr ''{Hb: low}'')"
proof -
  let ?text = "''Values: {Hb: low} (see above)''"
  have h1: "CHR ''{'' \<in> set ?text" by simp
  have h2: "CHR ''}'' \<in> set ?text" by simp
  have h3: "json_loads (sample_env (Inr []) []) (brace_slice ?text) = Inl JSONDecodeError"
    by (simp add: sample_env_def)
  have b: "brace_slice ?text = ''{Hb: low}''"
    by (simp add: brace_slice_def str_rfind_def py_slice_def slice_index_def)
  have n: "now_isoformat (sample_env (Inr []) []) = ''2024-05-01T10:00:01''"
    by (simp add: sample_env_def)
  show ?thesis using normalize_parse_failure [OF h1 h2 h3] h3 b n
    by (simp add: parse_error_record_def)
qed

section \<open>The analyser at its boundary\<close>

lemma lower_append: "lower (a @ b) = lower a @ lower b"
  by (simp add: lower_def)

lemma img_path_is_jpeg: "endswith (lower (img_path env)) [''.jpg'', ''.jpeg'']"
proof -
  have l: "lower ''.jpg'' = ''.jpg''" by (simp add: lower_eval)
  have "img_path env = (temp_dir env @ ''/blood_report_'' @ now_image_stamp env) @ ''.jpg''"
    by (simp add: img_path_def path_join_def)
  then have "lower (img_path env)
             = lower (temp_dir env @ ''/blood_report_'' @ now_image_stamp env) @ ''.jpg''"
    using l by (simp only: lower_append)
  then have "suffix ''.jpg'' (lower (img_path env))" by (simp only: suffixI)
  then show ?thesis by (simp add: endswith_suffix)
qed

lemma image_format_img_path:
  "read_bytes env w (img_path env) = Inr bytes \<Longrightarrow>
   image_format env w (img_path env) = Inr [\<lparr>mime_type = ''image/jpeg'', data = bytes\<rparr>]"
  by (simp add: image_format_def bnd_def img_path_is_jpeg)

lemma analyze_model_failure:
  assumes "read_bytes env w (img_path env) = Inr bytes"
    and "generate_content env system_prompt \<lparr>mime_type = ''image/jpeg'', data = bytes\<rparr> user_prompt
           = Inl e"
  shows "analyze_blood_report env w (img_path env)
           = Inr (json_dumps env (exception_record (exn_text env e) (now_isoformat env)))"
  using assms
  by (simp add: analyze_blood_report_def analyze_try_def image_format_img_path bnd_def)

lemma analyze_model_reply:
  assumes "read_bytes env w (img_path env) = Inr bytes"
    and "generate_content env system_prompt \<lparr>mime_type = ''image/jpeg'', data = bytes\<rparr> user_prompt
           = Inr text"
    and "normalize_record env text = Inr record"
  shows "analyze_blood_report env w (img_path env) = Inr (json_dumps env record)"
  using assms
  by (simp add: analyze_blood_report_def analyze_try_def image_format_img_path bnd_def
      normalize_def)

lemmas sample_paths = img_path_def pdf_path_def temp_dir_def path_join_def

lemma sample_save:
  "save_upload (sample_env reply table) empty_world (PilImage px) (img_path (sample_env reply table))
     = Inr (world_with (img_path (sample_env reply table)) (Bytes px))"
  by (simp add: save_upload_def bnd_def write_file_def sample_env_def empty_world_def
      world_with_def)

lemma sample_read:
  "read_bytes (sample_env reply table) (world_with p f) p = Inr f"
  by (simp add: read_bytes_def sample_env_def world_with_def)

lemma py_setitem_object: "py_setitem x k v = Inr y \<Longrightarrow> \<exists>obj. y = JObj obj"
  by (cases x) auto

lemma normalize_record_object:
  assumes "normalize_record env text = Inr record"
  shows "\<exists>obj. record = JObj obj"
proof (cases "CHR ''{'' \<in> set text \<and> CHR ''}'' \<in> set text")
  case False
  then have "CHR ''{'' \<notin> set text \<or> CHR ''}'' \<notin> set text" by simp
  from normalize_record_no_braces[OF this, of env] assms show ?thesis
    by (auto simp: parse_error_record_def)
next
  case True
  then have b: "CHR ''{'' \<in> set text" "CHR ''}'' \<in> set text" by simp_all
  show ?thesis
    using assms unfolding normalize_record_braces[OF b]
    by (auto simp: bnd_def parse_error_record_def dest: py_setitem_object
        split: sum.splits exn.splits if_splits)
qed

text \<open>
  C9. \<open>analyze_blood_report\<close> returns a JSON string for every path, world and
  environment: the serialisation of a dict. Every exception of its \<open>try\<close> block, among
  them one raised while the image is read or by the model call, is answered with the
  serialised record of the outer handler, whose only keys are \<open>error\<close> and
  \<open>timestamp\<close>; it has no \<open>raw_response\<close>.
\<close>

theorem analyze_blood_report_total:
  "(\<exists>obj. analyze_blood_report env w image_path = Inr (json_dumps env (JObj obj)))
   \<and> (\<forall>e. analyze_try env w image_path = Inl e \<longrightarrow>
          analyze_blood_report env w image_path =
            Inr (json_dumps env (exception_record (exn_text env e) (now_isoformat env))))
   \<and> (\<forall>e. read_bytes env w image_path = Inl e \<longrightarrow> analyze_try env w image_path = Inl e)
   \<and> (\<forall>e part. image_format env w image_path = Inr [part]
          \<and> generate_content env system_prompt part user_prompt = Inl e \<longrightarrow>
          analyze_try env w image_path = Inl e)
   \<and> (\<forall>msg ts. keys (exception_record msg ts) = [''error'', ''timestamp'']
          \<and> py_getitem (exception_record msg ts) ''error'' = Inr (JStr msg)
          \<and> py_getitem (exception_record msg ts) ''timestamp'' = Inr (JStr ts)
          \<and> py_contains ''raw_response'' (exception_record msg ts) = Inr False)"
proof -
  have total: "\<exists>obj. analyze_blood_report env w image_path = Inr (json_dumps env (JObj obj))"
  proof (cases "analyze_try env w image_path")
    case (Inl e)
    then show ?thesis by (auto simp: analyze_blood_report_def exception_record_def)
  next
    case (Inr s)
    then obtain reply r where "normalize_record env reply = Inr r"
      and s: "s = json_dumps env r"
      by (auto simp: analyze_try_def normalize_def bnd_def split: sum.splits)
    then obtain obj where "r = JObj obj" using normalize_record_object by blast
    then show ?thesis using Inr s by (auto simp: analyze_blood_report_def)
  qed
  show ?thesis using total
    by (auto simp: analyze_blood_report_def analyze_try_def image_format_def bnd_def
        exception_record_def split: sum.splits)
qed

text \<open>
  The service refuses the call, and a path with no file behind it.
\<close>

theorem analyze_blood_report_total_witness:
  "analyze_try quota_env (world_with (img_path quota_env) (Bytes [255, 216, 255])) (img_path quota_env)
     = Inl (ServiceError ''429 quota exceeded'')
   \<and> analyze_blood_report quota_env (world_with (img_path quota_env) (Bytes [255, 216, 255]))
         (img_path quota_env)
       = Inr (json_dumps quota_env
                (JObj [(''error'', JStr ''429 quota exceeded''),
                       (''timestamp'', JStr ''2024-05-01T10:00:01'')]))
   \<and> read_bytes quota_env empty_world ''missing.png'' = Inl (OSError ''missing.png'')
   \<and> analyze_blood_report quota_env empty_world ''missing.png''
       = Inr (json_dumps quota_env
                (JObj [(''error'', JStr ''missing.png''),
                       (''timestamp'', JStr ''2024-05-01T10:00:01'')]))
   \<and> py_contains ''raw_response''
         (JObj [(''error'', JStr ''429 quota exceeded''),
                (''timestamp'', JStr ''2024-05-01T10:00:01'')]) = Inr False"
proof -
  let ?w1 = "world_with (img_path quota_env) (Bytes [255, 216, 255])"
  have r: "read_bytes quota_env ?w1 (img_path quota_env) = Inr (Bytes [255, 216, 255])"
    unfolding quota_env_def by (rule sample_read)
  have g: "generate_content quota_env system_prompt
             \<lparr>mime_type = ''image/jpeg'', data = Bytes [255, 216, 255]\<rparr> user_prompt
           = Inl (ServiceError ''429 quota exceeded'')"
    by (simp add: quota_env_def sample_env_def)
  have t: "analyze_try quota_env ?w1 (img_path quota_env) = Inl (ServiceError ''429 quota exceeded'')"
    using r g by (simp add: analyze_try_def image_format_img_path bnd_def)
  have m: "read_bytes quota_env empty_world ''missing.png'' = Inl (OSError ''missing.png'')"
    by (simp add: read_bytes_def quota_env_def sample_env_def empty_world_def)
  have x: "exn_text quota_env (ServiceError ''429 quota exceeded'') = ''429 quota exceeded''"
    "exn_text quota_env (OSError ''missing.png'') = ''missing.png''"
    "now_isoformat quota_env = ''2024-05-01T10:00:01''"
    by (simp_all add: quota_env_def sample_env_def sample_exn_text_def)
  show ?thesis
    using analyze_blood_report_total [of quota_env ?w1 "img_path quota_env"]
      analyze_blood_report_total [of quota_env empty_world "''missing.png''"] t m x
    by (simp add: exception_record_def)
qed

section \<open>Rows and sections of the document\<close>

lemma cell_result:
  assumes "cell w h txt border ln align fill = Inr ops"
  shows "\<exists>s. txt = JStr s \<and> ops = [Cell w h (JStr s) border ln align fill]"
  using assms by (cases "txt") (auto split: if_splits option.splits)

lemma parameter_row_object:
  assumes "map_of entry ''parameter'' = Some (JStr name)"
    and "map_of entry ''value'' = None \<or> (\<exists>s. map_of entry ''value'' = Some (JStr s))"
    and "map_of entry ''reference_range'' = None
           \<or> (\<exists>s. map_of entry ''reference_range'' = Some (JStr s))"
    and "map_of entry ''status'' = None \<and> status = [] \<or> map_of entry ''status'' = Some (JStr status)"
  shows "parameter_row (JObj entry) =
           Inr ([Cell 60 7 (if length name > 30 then JStr (take 30 name @ ''...'') else JStr name)
                   1 0 [] 0,
                 Cell 30 7 (case map_of entry ''value'' of None \<Rightarrow> JStr ''N/A'' | Some v \<Rightarrow> v)
                   1 0 ''C'' 0,
                 Cell 60 7 (case map_of entry ''reference_range'' of
                              None \<Rightarrow> JStr ''N/A'' | Some v \<Rightarrow> v)
                   1 0 ''C'' 0]
                @ (if lower status = ''abnormal''
                   then [SetTextColor 255 0 0,
                         Cell 40 7 (JStr ''ABNORMAL'') 1 1 ''C'' 0,
                         SetTextColor 0 0 0]
                   else [SetTextColor 0 128 0,
                         Cell 40 7 (JStr ''NORMAL'') 1 1 ''C'' 0,
                         SetTextColor 0 0 0]))"
  using assms py_slice_prefix[of name 30]
  by (auto simp: parameter_row_def bnd_def lower_def)

lemma parameter_row_no_name:
  "map_of entry ''parameter'' = None \<Longrightarrow> parameter_row (JObj entry) = Inl (KeyError ''parameter'')"
  by (simp add: parameter_row_def bnd_def)

lemma parameter_row_success:
  assumes "parameter_row (JObj entry) = Inr row"
  shows "\<exists>status c1 c2 c3.
           (map_of entry ''status'' = None \<and> status = [] \<or> map_of entry ''status'' = Some (JStr status))
         \<and> row = [c1, c2, c3]
                  @ (if lower status = ''abnormal''
                     then [SetTextColor 255 0 0,
                           Cell 40 7 (JStr ''ABNORMAL'') 1 1 ''C'' 0,
                           SetTextColor 0 0 0]
                     else [SetTextColor 0 128 0,
                           Cell 40 7 (JStr ''NORMAL'') 1 1 ''C'' 0,
                           SetTextColor 0 0 0])"
proof -
  from assms obtain shown v r name_cell value_cell range_cell st status where
    c1: "cell 60 7 shown 1 0 [] 0 = Inr name_cell"
    and c2: "cell 30 7 v 1 0 ''C'' 0 = Inr value_cell"
    and c3: "cell 60 7 r 1 0 ''C'' 0 = Inr range_cell"
    and st: "st = (case map_of entry ''status'' of None \<Rightarrow> JStr [] | Some v \<Rightarrow> v)"
    and lo: "py_lower st = Inr status"
    and row: "row = name_cell @ value_cell @ range_cell
          @ (if status = ''abnormal''
             then [SetTextColor 255 0 0,
                   Cell 40 7 (JStr ''ABNORMAL'') 1 1 ''C'' 0,
                   SetTextColor 0 0 0]
             else [SetTextColor 0 128 0,
                   Cell 40 7 (JStr ''NORMAL'') 1 1 ''C'' 0,
                   SetTextColor 0 0 0])"
    by (auto simp: parameter_row_def bnd_def split: sum.splits)
  from cell_result[OF c1] obtain a where a: "name_cell = [a]" by blast
  from cell_result[OF c2] obtain b where b: "value_cell = [b]" by blast
  from cell_result[OF c3] obtain c where c: "range_cell = [c]" by blast
  from lo obtain s where s: "st = JStr s" and status: "status = lower s"
    by (cases st) auto
  have "map_of entry ''status'' = None \<and> s = [] \<or> map_of entry ''status'' = Some (JStr s)"
    using st s by (auto split: option.splits)
  then show ?thesis using row status a b c by auto
qed

lemma for_each_stops:
  assumes "\<forall>x \<in> set good. \<exists>ys. body x = Inr ys" and "body bad = Inl e"
  shows "for_each body (good @ bad # rest) = Inl e"
  using assms by (induction good) (auto simp: bnd_def)

lemma for_each_split:
  assumes "for_each body (a @ x # b) = Inr ys"
  shows "\<exists>ya yx yb. body x = Inr yx \<and> ys = ya @ yx @ yb"
  using assms
proof (induction a arbitrary: ys)
  case Nil
  then show ?case by (auto simp: bnd_def split: sum.splits)
next
  case (Cons h t)
  from Cons.prems obtain yh yt where h: "body h = Inr yh" and t: "for_each body (t @ x # b) = Inr yt"
    and ys: "ys = yh @ yt"
    by (auto simp: bnd_def split: sum.splits)
  from Cons.IH[OF t] obtain ya yx yb where "body x = Inr yx" and "yt = ya @ yx @ yb" by blast
  then have "body x = Inr yx \<and> ys = (yh @ ya) @ yx @ yb" using ys by simp
  then show ?case by blast
qed

lemma section_absent:
  "map_of d key = None \<Longrightarrow> section_if_present key (JObj d) f = Inr []"
  by (simp add: section_if_present_def bnd_def)

lemma section_present:
  "map_of d key = Some v \<Longrightarrow> section_if_present key (JObj d) f = f v"
  by (simp add: section_if_present_def bnd_def)

lemma labelled_row_text:
  "labelled_row label (JStr s) =
     Inr [SetFont ''Arial'' ''B'' 10, Cell 30 6 (JStr label) 0 0 [] 0,
          SetFont ''Arial'' [] 10, Cell 0 6 (JStr s) 0 1 [] 0]"
  by (simp add: labelled_row_def bnd_def)

lemma add_patient_details_text:
  assumes "map_of pd ''name'' = None \<or> (\<exists>s. map_of pd ''name'' = Some (JStr s))"
    and "map_of pd ''id'' = None \<or> (\<exists>s. map_of pd ''id'' = Some (JStr s))"
  shows "\<exists>ops. add_patient_details env (JObj pd) = Inr ops"
  using assms by (auto simp: add_patient_details_def bnd_def labelled_row_text)

lemma add_test_date_text: "\<exists>ops. add_test_date env (JStr s) = Inr ops"
  by (simp add: add_test_date_def bnd_def labelled_row_text)

lemma render_first_failing_row:
  assumes "section_if_present ''patient_details'' (JObj d) (add_patient_details env) = Inr s1"
    and "section_if_present ''test_date'' (JObj d) (add_test_date env) = Inr s2"
    and "map_of d ''blood_parameters'' = Some (JArr (good @ bad # rest))"
    and "\<forall>p \<in> set good. \<exists>row. parameter_row p = Inr row"
    and "parameter_row bad = Inl e"
  shows "render env (JObj d) = Inl e"
proof -
  have "for_each parameter_row (good @ bad # rest) = Inl e"
    using assms(4,5) by (rule for_each_stops)
  then have s3: "section_if_present ''blood_parameters'' (JObj d) add_blood_parameters = Inl e"
    using assms(3) by (simp add: section_present add_blood_parameters_def bnd_def)
  show ?thesis by (simp add: render_def assms(1,2) s3 bnd_def)
qed

lemma render_error_record:
  assumes "map_of d ''patient_details'' = None" and "map_of d ''test_date'' = None"
    and "map_of d ''blood_parameters'' = None" and "map_of d ''summary'' = None"
    and "map_of d ''disclaimer'' = None"
  shows "render env (JObj d) = Inr (page_start env)"
    and "format_json_for_display env (JObj d) = Inr []"
  using assms
  by (simp_all add: render_def format_json_for_display_def section_absent bnd_def join_lines_def)

lemmas render_eval =
  render_def section_if_present_def bnd_def add_blood_parameters_def parameter_row_def
  add_test_date_def add_patient_details_def labelled_row_def chapter_title_def page_start_def
  lower_eval

text \<open>
  C7. In a rendered document, the row of every entry of \<open>blood_parameters\<close> ends in
  its status cell: \<open>ABNORMAL\<close> between a switch to red and back to black exactly when the
  entry's status, lower-cased, is \<open>abnormal\<close>; for every other status text, and for an
  entry with no status, \<open>NORMAL\<close> between a switch to green and back to black.
\<close>

theorem status_cell_follows_status:
  assumes "map_of d ''blood_parameters'' = Some (JArr ps)"
    and "JObj entry \<in> set ps"
    and "render env (JObj d) = Inr pdf"
  shows "\<exists>status cell c1 c2 c3 before after.
           (map_of entry ''status'' = None \<and> status = []
              \<or> map_of entry ''status'' = Some (JStr status))
         \<and> cell = (if lower status = ''abnormal''
                    then [SetTextColor 255 0 0,
                          Cell 40 7 (JStr ''ABNORMAL'') 1 1 ''C'' 0,
                          SetTextColor 0 0 0]
                    else [SetTextColor 0 128 0,
                          Cell 40 7 (JStr ''NORMAL'') 1 1 ''C'' 0,
                          SetTextColor 0 0 0])
         \<and> parameter_row (JObj entry) = Inr ([c1, c2, c3] @ cell)
         \<and> pdf = before @ [c1, c2, c3] @ cell @ after"
proof -
  from assms(3) obtain s1 s2 s3 s4 s5 where
    s3: "section_if_present ''blood_parameters'' (JObj d) add_blood_parameters = Inr s3"
    and pdf: "pdf = page_start env @ s1 @ s2 @ s3 @ s4 @ s5"
    by (auto simp: render_def bnd_def split: sum.splits)
  from s3 assms(1) have "add_blood_parameters (JArr ps) = Inr s3"
    by (simp add: section_present)
  then obtain rows hd_ops where rows: "for_each parameter_row ps = Inr rows"
    and s3': "s3 = hd_ops @ rows @ [Ln (Some 4)]"
    by (auto simp: add_blood_parameters_def bnd_def split: sum.splits)
  from assms(2) obtain a b where "ps = a @ JObj entry # b" by (meson split_list)
  with rows for_each_split[of parameter_row a "JObj entry" b rows]
  obtain ya row yb where row: "parameter_row (JObj entry) = Inr row" and r: "rows = ya @ row @ yb"
    by blast
  from parameter_row_success[OF row] obtain status c1 c2 c3 where
    st: "map_of entry ''status'' = None \<and> status = [] \<or> map_of entry ''status'' = Some (JStr status)"
    and rw: "row = [c1, c2, c3]
                  @ (if lower status = ''abnormal''
                     then [SetTextColor 255 0 0,
                           Cell 40 7 (JStr ''ABNORMAL'') 1 1 ''C'' 0,
                           SetTextColor 0 0 0]
                     else [SetTextColor 0 128 0,
                           Cell 40 7 (JStr ''NORMAL'') 1 1 ''C'' 0,
                           SetTextColor 0 0 0])"
    by blast
  let ?cell = "(if lower status = ''abnormal''
                     then [SetTextColor 255 0 0,
                           Cell 40 7 (JStr ''ABNORMAL'') 1 1 ''C'' 0,
                           SetTextColor 0 0 0]
                     else [SetTextColor 0 128 0,
                           Cell 40 7 (JStr ''NORMAL'') 1 1 ''C'' 0,
                           SetTextColor 0 0 0])"
  have "pdf = (page_start env @ s1 @ s2 @ hd_ops @ ya) @ [c1, c2, c3] @ ?cell
                @ (yb @ [Ln (Some 4)] @ s4 @ s5)"
    using pdf s3' r rw by simp
  then show ?thesis using st row rw by blast
qed

text \<open>
  A status written \<open>Abnormal\<close> is shown as \<open>ABNORMAL\<close>, in red.
\<close>

theorem status_cell_follows_status_witness:
  "map_of [(''blood_parameters'', JArr [JObj hemoglobin_entry])] ''blood_parameters''
     = Some (JArr [JObj hemoglobin_entry])
   \<and> JObj hemoglobin_entry \<in> set [JObj hemoglobin_entry]
   \<and> map_of hemoglobin_entry ''status'' = Some (JStr ''Abnormal'')
   \<and> lower ''Abnormal'' = ''abnormal''
   \<and> render (sample_env (Inr []) []) (JObj [(''blood_parameters'', JArr [JObj hemoglobin_entry])])
       = Inr (page_start (sample_env (Inr []) [])
              @ chapter_title ''Blood Parameters''
              @ [SetFont ''Arial'' ''B'' 10,
                 Cell 60 7 (JStr ''Parameter'') 1 0 ''C'' 0,
                 Cell 30 7 (JStr ''Value'') 1 0 ''C'' 0,
                 Cell 60 7 (JStr ''Reference Range'') 1 0 ''C'' 0,
                 Cell 40 7 (JStr ''Status'') 1 1 ''C'' 0,
                 SetFont ''Arial'' [] 10]
              @ [Cell 60 7 (JStr ''Hemoglobin'') 1 0 [] 0,
                 Cell 30 7 (JStr ''10'') 1 0 ''C'' 0,
                 Cell 60 7 (JStr ''13-17'') 1 0 ''C'' 0]
              @ [SetTextColor 255 0 0,
                 Cell 40 7 (JStr ''ABNORMAL'') 1 1 ''C'' 0,
                 SetTextColor 0 0 0]
              @ [Ln (Some 4)])"
proof -
  let ?d = "[(''blood_parameters'', JArr [JObj hemoglobin_entry])]"
  let ?env = "sample_env (Inr []) []"
  let ?pdf = "page_start ?env
              @ chapter_title ''Blood Parameters''
              @ [SetFont ''Arial'' ''B'' 10,
                 Cell 60 7 (JStr ''Parameter'') 1 0 ''C'' 0,
                 Cell 30 7 (JStr ''Value'') 1 0 ''C'' 0,
                 Cell 60 7 (JStr ''Reference Range'') 1 0 ''C'' 0,
                 Cell 40 7 (JStr ''Status'') 1 1 ''C'' 0,
                 SetFont ''Arial'' [] 10]
              @ [Cell 60 7 (JStr ''Hemoglobin'') 1 0 [] 0,
                 Cell 30 7 (JStr ''10'') 1 0 ''C'' 0,
                 Cell 60 7 (JStr ''13-17'') 1 0 ''C'' 0]
              @ [SetTextColor 255 0 0,
                 Cell 40 7 (JStr ''ABNORMAL'') 1 1 ''C'' 0,
                 SetTextColor 0 0 0]
              @ [Ln (Some 4)]"
  have h1: "map_of ?d ''blood_parameters'' = Some (JArr [JObj hemoglobin_entry])" by simp
  have h2: "JObj hemoglobin_entry \<in> set [JObj hemoglobin_entry]" by simp
  have h3: "render ?env (JObj ?d) = Inr ?pdf"
    by (simp add: render_eval hemoglobin_entry_def)
  have l: "lower ''Abnormal'' = ''abnormal''" by (simp add: lower_eval)
  have st: "map_of hemoglobin_entry ''status'' = Some (JStr ''Abnormal'')"
    by (simp add: hemoglobin_entry_def)
  show ?thesis using status_cell_follows_status [OF h1 h2 h3] h1 h2 h3 l st by simp
qed

lemma number_as_test_date_raises: "add_test_date env (JInt 20240430) = Inl AttributeError"
  by (simp add: add_test_date_def labelled_row_def bnd_def)

lemma number_as_value_raises:
  "parameter_row (JObj [(''parameter'', JStr ''Hemoglobin''), (''value'', JInt 10)]) = Inl TypeError"
  by (simp add: parameter_row_def bnd_def)

text \<open>
  C10. The claim reads: \<open>generate_pdf\<close> raises \<open>KeyError\<close> whenever an entry of
  \<open>blood_parameters\<close> has no \<open>parameter\<close> key. What is drawn before that entry can
  raise first: a row whose status is \<open>null\<close> ends the call with an \<open>AttributeError\<close>,
  and the nameless row after it is never reached.
\<close>

theorem null_status_row_raises_first:
  "map_of nameless_entry ''parameter'' = None
   \<and> generate_pdf (sample_env (Inr []) []) empty_world
         (AsData (JObj [(''blood_parameters'',
                         JArr [JObj null_status_entry, JObj nameless_entry])]))
         (Some ''report.pdf'')
       = Inl AttributeError"
  by (simp add: generate_pdf_def parsed_input_def render_eval null_status_entry_def
      nameless_entry_def)

text \<open>
  C10, as the source has it: \<open>generate_pdf\<close> raises \<open>KeyError('parameter')\<close> when an
  entry of \<open>blood_parameters\<close> has no \<open>parameter\<close> key and everything drawn before it
  raises nothing (the patient block, the test date and the rows before it). A row whose
  name is a text, and whose \<open>value\<close>, \<open>reference_range\<close> and \<open>status\<close> are texts or
  missing, is drawn with \<open>N/A\<close> for a missing \<open>value\<close> or \<open>reference_range\<close> and
  with \<open>NORMAL\<close> for a missing \<open>status\<close>. The display line of \<open>app.py\<close> raises the
  same \<open>KeyError\<close> for a row with no name whose status is a text or missing.
\<close>

theorem missing_parameter_key_raises:
  "(parsed_input env json_data = Inr (JObj d)
      \<and> section_if_present ''patient_details'' (JObj d) (add_patient_details env) = Inr s1
      \<and> section_if_present ''test_date'' (JObj d) (add_test_date env) = Inr s2
      \<and> map_of d ''blood_parameters'' = Some (JArr (good @ JObj bad # rest))
      \<and> (\<forall>p \<in> set good. \<exists>row. parameter_row p = Inr row)
      \<and> map_of bad ''parameter'' = None
    \<longrightarrow> generate_pdf env w json_data output_path = Inl (KeyError ''parameter''))
   \<and> (map_of entry ''parameter'' = Some (JStr name)
      \<and> (map_of entry ''value'' = None \<or> (\<exists>s. map_of entry ''value'' = Some (JStr s)))
      \<and> (map_of entry ''reference_range'' = None
           \<or> (\<exists>s. map_of entry ''reference_range'' = Some (JStr s)))
      \<and> (map_of entry ''status'' = None \<or> (\<exists>s. map_of entry ''status'' = Some (JStr s)))
    \<longrightarrow> parameter_row (JObj entry) =
          Inr ([Cell 60 7 (if length name > 30 then JStr (take 30 name @ ''...'') else JStr name)
                  1 0 [] 0,
                Cell 30 7 (case map_of entry ''value'' of None \<Rightarrow> JStr ''N/A'' | Some v \<Rightarrow> v)
                  1 0 ''C'' 0,
                Cell 60 7 (case map_of entry ''reference_range'' of
                             None \<Rightarrow> JStr ''N/A'' | Some v \<Rightarrow> v)
                  1 0 ''C'' 0]
               @ (if \<exists>s. map_of entry ''status'' = Some (JStr s) \<and> lower s = ''abnormal''
                  then [SetTextColor 255 0 0,
                        Cell 40 7 (JStr ''ABNORMAL'') 1 1 ''C'' 0,
                        SetTextColor 0 0 0]
                  else [SetTextColor 0 128 0,
                        Cell 40 7 (JStr ''NORMAL'') 1 1 ''C'' 0,
                        SetTextColor 0 0 0])))
   \<and> (map_of nameless ''parameter'' = None
      \<and> (map_of nameless ''status'' = None \<or> (\<exists>s. map_of nameless ''status'' = Some (JStr s)))
    \<longrightarrow> display_parameter env (JObj nameless) = Inl (KeyError ''parameter''))"
proof (intro conjI impI)
  assume a: "parsed_input env json_data = Inr (JObj d)
      \<and> section_if_present ''patient_details'' (JObj d) (add_patient_details env) = Inr s1
      \<and> section_if_present ''test_date'' (JObj d) (add_test_date env) = Inr s2
      \<and> map_of d ''blood_parameters'' = Some (JArr (good @ JObj bad # rest))
      \<and> (\<forall>p \<in> set good. \<exists>row. parameter_row p = Inr row)
      \<and> map_of bad ''parameter'' = None"
  then have "parameter_row (JObj bad) = Inl (KeyError ''parameter'')"
    by (simp add: parameter_row_no_name)
  with a have "render env (JObj d) = Inl (KeyError ''parameter'')"
    using render_first_failing_row[of d env s1 s2 good "JObj bad" rest "KeyError ''parameter''"]
    by blast
  then show "generate_pdf env w json_data output_path = Inl (KeyError ''parameter'')"
    using a by (simp add: generate_pdf_def bnd_def)
next
  assume a: "map_of entry ''parameter'' = Some (JStr name)
      \<and> (map_of entry ''value'' = None \<or> (\<exists>s. map_of entry ''value'' = Some (JStr s)))
      \<and> (map_of entry ''reference_range'' = None
           \<or> (\<exists>s. map_of entry ''reference_range'' = Some (JStr s)))
      \<and> (map_of entry ''status'' = None \<or> (\<exists>s. map_of entry ''status'' = Some (JStr s)))"
  then consider "map_of entry ''status'' = None" | s where "map_of entry ''status'' = Some (JStr s)"
    by auto
  then show "parameter_row (JObj entry) =
          Inr ([Cell 60 7 (if length name > 30 then JStr (take 30 name @ ''...'') else JStr name)
                  1 0 [] 0,
                Cell 30 7 (case map_of entry ''value'' of None \<Rightarrow> JStr ''N/A'' | Some v \<Rightarrow> v)
                  1 0 ''C'' 0,
                Cell 60 7 (case map_of entry ''reference_range'' of
                             None \<Rightarrow> JStr ''N/A'' | Some v \<Rightarrow> v)
                  1 0 ''C'' 0]
               @ (if \<exists>s. map_of entry ''status'' = Some (JStr s) \<and> lower s = ''abnormal''
                  then [SetTextColor 255 0 0,
                        Cell 40 7 (JStr ''ABNORMAL'') 1 1 ''C'' 0,
                        SetTextColor 0 0 0]
                  else [SetTextColor 0 128 0,
                        Cell 40 7 (JStr ''NORMAL'') 1 1 ''C'' 0,
                        SetTextColor 0 0 0]))"
  proof cases
    case 1
    then show ?thesis using a parameter_row_object[of entry name "[]"]
      by (simp add: lower_def)
  next
    case 2
    then show ?thesis using a parameter_row_object[of entry name s] by simp
  qed
next
  assume "map_of nameless ''parameter'' = None
      \<and> (map_of nameless ''status'' = None \<or> (\<exists>s. map_of nameless ''status'' = Some (JStr s)))"
  then show "display_parameter env (JObj nameless) = Inl (KeyError ''parameter'')"
    by (auto simp: display_parameter_def bnd_def)
qed

text \<open>
  A record with a patient block and a test date, whose first row has only a name and
  whose second row has none.
\<close>

theorem missing_parameter_key_raises_witness:
  "parameter_row (JObj wbc_entry)
     = Inr [Cell 60 7 (JStr ''WBC Count'') 1 0 [] 0,
            Cell 30 7 (JStr ''N/A'') 1 0 ''C'' 0,
            Cell 60 7 (JStr ''N/A'') 1 0 ''C'' 0,
            SetTextColor 0 128 0,
            Cell 40 7 (JStr ''NORMAL'') 1 1 ''C'' 0,
            SetTextColor 0 0 0]
   \<and> map_of nameless_entry ''parameter'' = None
   \<and> add_patient_details (sample_env (Inr []) []) (JObj [(''name'', JStr ''A. Patient'')])
       = Inr (chapter_title ''Patient Details''
              @ [SetFont ''Arial'' ''B'' 10, Cell 30 6 (JStr ''Name:'') 0 0 [] 0,
                 SetFont ''Arial'' [] 10, Cell 0 6 (JStr ''A. Patient'') 0 1 [] 0,
                 Ln (Some 4)])
   \<and> add_test_date (sample_env (Inr []) []) (JStr ''2024-04-30'')
       = Inr [SetFont ''Arial'' ''B'' 10, Cell 30 6 (JStr ''Test Date:'') 0 0 [] 0,
              SetFont ''Arial'' [] 10, Cell 0 6 (JStr ''2024-04-30'') 0 1 [] 0,
              Ln (Some 4)]
   \<and> generate_pdf (sample_env (Inr []) []) empty_world
         (AsData (JObj [(''patient_details'', JObj [(''name'', JStr ''A. Patient'')]),
                        (''test_date'', JStr ''2024-04-30''),
                        (''blood_parameters'', JArr [JObj wbc_entry, JObj nameless_entry])]))
         (Some ''report.pdf'')
       = Inl (KeyError ''parameter'')
   \<and> display_parameter (sample_env (Inr []) []) (JObj nameless_entry)
       = Inl (KeyError ''parameter'')"
proof -
  let ?env = "sample_env (Inr []) []"
  let ?d = "[(''patient_details'', JObj [(''name'', JStr ''A. Patient'')]),
             (''test_date'', JStr ''2024-04-30''),
             (''blood_parameters'', JArr [JObj wbc_entry, JObj nameless_entry])]"
  let ?s1 = "chapter_title ''Patient Details''
              @ [SetFont ''Arial'' ''B'' 10, Cell 30 6 (JStr ''Name:'') 0 0 [] 0,
                 SetFont ''Arial'' [] 10, Cell 0 6 (JStr ''A. Patient'') 0 1 [] 0,
                 Ln (Some 4)]"
  let ?s2 = "[SetFont ''Arial'' ''B'' 10, Cell 30 6 (JStr ''Test Date:'') 0 0 [] 0,
              SetFont ''Arial'' [] 10, Cell 0 6 (JStr ''2024-04-30'') 0 1 [] 0,
              Ln (Some 4)]"
  note inst = missing_parameter_key_raises [of ?env "AsData (JObj ?d)" ?d ?s1 ?s2
      "[JObj wbc_entry]" nameless_entry "[]" empty_world "Some ''report.pdf''" wbc_entry
      "''WBC Count''" nameless_entry]
  have i: "parsed_input ?env (AsData (JObj ?d)) = Inr (JObj ?d)"
    by (simp add: parsed_input_def)
  have pd: "add_patient_details ?env (JObj [(''name'', JStr ''A. Patient'')]) = Inr ?s1"
    by (simp add: add_patient_details_def bnd_def labelled_row_text)
  have td: "add_test_date ?env (JStr ''2024-04-30'') = Inr ?s2"
    by (simp add: add_test_date_def bnd_def labelled_row_text)
  have p: "section_if_present ''patient_details'' (JObj ?d) (add_patient_details ?env) = Inr ?s1"
    using pd by (simp add: section_if_present_def bnd_def)
  have t: "section_if_present ''test_date'' (JObj ?d) (add_test_date ?env) = Inr ?s2"
    using td by (simp add: section_if_present_def bnd_def)
  have b: "map_of ?d ''blood_parameters'' = Some (JArr ([JObj wbc_entry] @ JObj nameless_entry # []))"
    by simp
  have n: "map_of nameless_entry ''parameter'' = None" by (simp add: nameless_entry_def)
  have ns: "map_of nameless_entry ''status'' = Some (JStr ''normal'')"
    by (simp add: nameless_entry_def)
  have wn: "map_of wbc_entry ''parameter'' = Some (JStr ''WBC Count'')"
    by (simp add: wbc_entry_def)
  have ws: "map_of wbc_entry ''status'' = None" by (simp add: wbc_entry_def)
  have wv: "map_of wbc_entry ''value'' = None" "map_of wbc_entry ''reference_range'' = None"
    by (simp_all add: wbc_entry_def)
  have row: "parameter_row (JObj wbc_entry)
     = Inr [Cell 60 7 (JStr ''WBC Count'') 1 0 [] 0,
            Cell 30 7 (JStr ''N/A'') 1 0 ''C'' 0,
            Cell 60 7 (JStr ''N/A'') 1 0 ''C'' 0,
            SetTextColor 0 128 0,
            Cell 40 7 (JStr ''NORMAL'') 1 1 ''C'' 0,
            SetTextColor 0 0 0]"
    using inst wn ws wv by simp
  then have g: "\<forall>p \<in> set [JObj wbc_entry]. \<exists>row. parameter_row p = Inr row" by simp
  have pdf: "generate_pdf ?env empty_world (AsData (JObj ?d)) (Some ''report.pdf'')
             = Inl (KeyError ''parameter'')"
    using inst i p t b g n by blast
  have disp: "display_parameter ?env (JObj nameless_entry) = Inl (KeyError ''parameter'')"
    using inst n ns by blast
  show ?thesis using row n pd td pdf disp by simp
qed

section \<open>The orchestrator\<close>

lemma pdf_path_nonempty: "pdf_path env \<noteq> []"
  by (simp add: pdf_path_def path_join_def)

lemma process_image_plain_record:
  assumes "makedirs_fault env (temp_dir env) = None"
    and "save_upload env w img (img_path env) = Inr w1"
    and "analyze_blood_report env w1 (img_path env) = Inr json_data"
    and "json_loads env json_data = Inr (JObj d)"
    and "map_of d ''patient_details'' = None" and "map_of d ''test_date'' = None"
    and "map_of d ''blood_parameters'' = None" and "map_of d ''summary'' = None"
    and "map_of d ''disclaimer'' = None"
    and "output_fault env (page_start env) (pdf_path env) = None"
  shows "generate_pdf env w1 (AsText json_data) (Some (pdf_path env))
           = Inr (pdf_path env, w1\<lparr>files := (files w1)(pdf_path env \<mapsto> Pdf (page_start env))\<rparr>)"
    and "process_image env w (Some img)
           = Inr (([], Some json_data, Some (pdf_path env)),
                  w1\<lparr>files := (files w1)(pdf_path env \<mapsto> Pdf (page_start env))\<rparr>)"
proof -
  have r: "render env (JObj d) = Inr (page_start env)"
    and f: "format_json_for_display env (JObj d) = Inr []"
    using assms(5-9) by (rule render_error_record)+
  show g: "generate_pdf env w1 (AsText json_data) (Some (pdf_path env))
           = Inr (pdf_path env, w1\<lparr>files := (files w1)(pdf_path env \<mapsto> Pdf (page_start env))\<rparr>)"
    using assms(4,10) r
    by (simp add: generate_pdf_def parsed_input_def bnd_def pdf_output_def pdf_path_nonempty)
  show "process_image env w (Some img)
           = Inr (([], Some json_data, Some (pdf_path env)),
                  w1\<lparr>files := (files w1)(pdf_path env \<mapsto> Pdf (page_start env))\<rparr>)"
    using assms(1-4) g f
    by (simp add: process_image_def process_image_body_def bnd_def)
qed

lemma quota_run:
  "analyze_blood_report quota_env (world_with (img_path quota_env) (Bytes [255, 216, 255]))
       (img_path quota_env) = Inr quota_json
   \<and> process_image quota_env empty_world (Some (PilImage [255, 216, 255]))
     = Inr (([], Some quota_json, Some (pdf_path quota_env)),
            (world_with (img_path quota_env) (Bytes [255, 216, 255]))
              \<lparr>files := (files (world_with (img_path quota_env) (Bytes [255, 216, 255])))
                  (pdf_path quota_env \<mapsto> Pdf (page_start quota_env))\<rparr>)"
proof -
  let ?w1 = "world_with (img_path quota_env) (Bytes [255, 216, 255])"
  have m: "makedirs_fault quota_env (temp_dir quota_env) = None"
    by (simp add: quota_env_def sample_env_def)
  have s: "save_upload quota_env empty_world (PilImage [255, 216, 255]) (img_path quota_env) = Inr ?w1"
    unfolding quota_env_def by (rule sample_save)
  have r: "read_bytes quota_env ?w1 (img_path quota_env) = Inr (Bytes [255, 216, 255])"
    unfolding quota_env_def by (rule sample_read)
  have g: "generate_content quota_env system_prompt
             \<lparr>mime_type = ''image/jpeg'', data = Bytes [255, 216, 255]\<rparr> user_prompt
           = Inl (ServiceError ''429 quota exceeded'')"
    by (simp add: quota_env_def sample_env_def)
  have d: "json_dumps quota_env
             (exception_record (exn_text quota_env (ServiceError ''429 quota exceeded''))
                (now_isoformat quota_env)) = quota_json"
    by (simp add: quota_env_def sample_env_def sample_exn_text_def)
  have a: "analyze_blood_report quota_env ?w1 (img_path quota_env) = Inr quota_json"
    using analyze_model_failure[OF r g] d by simp
  have l: "json_loads quota_env quota_json
           = Inr (JObj [(''error'', JStr ''429 quota exceeded''),
                        (''timestamp'', JStr ''2024-05-01T10:00:01'')])"
    by (simp add: quota_env_def sample_env_def exception_record_def)
  have out: "output_fault quota_env (page_start quota_env) (pdf_path quota_env) = None"
    by (simp add: quota_env_def sample_env_def)
  have "process_image quota_env empty_world (Some (PilImage [255, 216, 255]))
     = Inr (([], Some quota_json, Some (pdf_path quota_env)),
            ?w1\<lparr>files := (files ?w1)(pdf_path quota_env \<mapsto> Pdf (page_start quota_env))\<rparr>)"
    by (rule process_image_plain_record(2)[OF m s a l _ _ _ _ _ out]) simp_all
  then show ?thesis using a by simp
qed

lemma quota_pdf_path:
  "pdf_path quota_env = ''/tmp/blood_report_analyzer/blood_report_analysis_20240501100002.pdf''"
  by (simp add: sample_paths quota_env_def sample_env_def)

lemma unreadable_run:
  "normalize_record unreadable_env ''I cannot read this image.''
     = Inr (parse_error_record ''Could not parse the blood report'' ''I cannot read this image.''
              ''2024-05-01T10:00:01'')
   \<and> analyze_blood_report unreadable_env
         (world_with (img_path unreadable_env) (Bytes [255, 216, 255])) (img_path unreadable_env)
       = Inr unreadable_json
   \<and> process_image unreadable_env empty_world (Some (PilImage [255, 216, 255]))
     = Inr (([], Some unreadable_json, Some (pdf_path unreadable_env)),
            (world_with (img_path unreadable_env) (Bytes [255, 216, 255]))
              \<lparr>files := (files (world_with (img_path unreadable_env) (Bytes [255, 216, 255])))
                  (pdf_path unreadable_env \<mapsto> Pdf (page_start unreadable_env))\<rparr>)"
proof -
  let ?w1 = "world_with (img_path unreadable_env) (Bytes [255, 216, 255])"
  have m: "makedirs_fault unreadable_env (temp_dir unreadable_env) = None"
    by (simp add: unreadable_env_def sample_env_def)
  have s: "save_upload unreadable_env empty_world (PilImage [255, 216, 255])
             (img_path unreadable_env) = Inr ?w1"
    unfolding unreadable_env_def by (rule sample_save)
  have r: "read_bytes unreadable_env ?w1 (img_path unreadable_env) = Inr (Bytes [255, 216, 255])"
    unfolding unreadable_env_def by (rule sample_read)
  have g: "generate_content unreadable_env system_prompt
             \<lparr>mime_type = ''image/jpeg'', data = Bytes [255, 216, 255]\<rparr> user_prompt
           = Inr ''I cannot read this image.''"
    by (simp add: unreadable_env_def sample_env_def)
  have n: "normalize_record unreadable_env ''I cannot read this image.''
     = Inr (parse_error_record ''Could not parse the blood report'' ''I cannot read this image.''
              ''2024-05-01T10:00:01'')"
    by (simp add: unreadable_env_def normalize_record_no_braces sample_env_def)
  have d: "json_dumps unreadable_env
             (parse_error_record ''Could not parse the blood report'' ''I cannot read this image.''
              ''2024-05-01T10:00:01'') = unreadable_json"
    by (simp add: unreadable_env_def sample_env_def)
  have a: "analyze_blood_report unreadable_env ?w1 (img_path unreadable_env) = Inr unreadable_json"
    using analyze_model_reply[OF r g n] d by simp
  have l: "json_loads unreadable_env unreadable_json
           = Inr (JObj [(''error'', JStr ''Could not parse the blood report''),
                        (''raw_response'', JStr ''I cannot read this image.''),
                        (''timestamp'', JStr ''2024-05-01T10:00:01'')])"
    by (simp add: unreadable_env_def sample_env_def parse_error_record_def)
  have out: "output_fault unreadable_env (page_start unreadable_env) (pdf_path unreadable_env) = None"
    by (simp add: unreadable_env_def sample_env_def)
  have "process_image unreadable_env empty_world (Some (PilImage [255, 216, 255]))
     = Inr (([], Some unreadable_json, Some (pdf_path unreadable_env)),
            ?w1\<lparr>files := (files ?w1)(pdf_path unreadable_env \<mapsto> Pdf (page_start unreadable_env))\<rparr>)"
    by (rule process_image_plain_record(2)[OF m s a l _ _ _ _ _ out]) simp_all
  then show ?thesis using a n by simp
qed

lemma unreadable_pdf_path:
  "pdf_path unreadable_env = ''/tmp/blood_report_analyzer/blood_report_analysis_20240501100002.pdf''"
  by (simp add: sample_paths unreadable_env_def sample_env_def)

text \<open>
  C1. The claim reads: when the model call fails, the failure reaches the orchestrator,
  which answers with a text beginning \<open>Error: \<close>, no record and no document. In the
  source the failure stops inside \<open>analyze_blood_report\<close>: with a service that refuses
  the call, \<open>process_image\<close> returns an empty display text, the serialised error record
  and the path of a document it has written.
\<close>

theorem quota_failure_returns_record_and_document:
  "analyze_blood_report quota_env (world_with (img_path quota_env) (Bytes [255, 216, 255]))
       (img_path quota_env) = Inr quota_json
   \<and> returned (process_image quota_env empty_world (Some (PilImage [255, 216, 255])))
     = Inr ([], Some quota_json,
            Some ''/tmp/blood_report_analyzer/blood_report_analysis_20240501100002.pdf'')
   \<and> left_at (process_image quota_env empty_world (Some (PilImage [255, 216, 255])))
         ''/tmp/blood_report_analyzer/blood_report_analysis_20240501100002.pdf''
     = Some (Pdf [AliasNbPages, AddPage, SetFont ''Arial'' ''I'' 10,
                  Cell 0 10 (JStr ''Generated on: May 01, 2024, 10:00'') 0 1 [] 0, Ln (Some 4)])"
  using quota_run
  by (simp add: returned_def left_at_def quota_pdf_path[symmetric] page_start_def)
     (simp add: quota_env_def sample_env_def)

text \<open>
  C1, as the source has it: when the model call raises \<open>e\<close>, \<open>analyze_blood_report\<close>
  raises nothing and returns the serialised record \<open>{error: str(e), timestamp}\<close>;
  \<open>process_image\<close> hands that string to \<open>generate_pdf\<close> and, when the string parses
  back to the record and the document can be written, returns the empty display text, the
  string and the path of the document, which holds the generation line only.
\<close>

theorem model_failure_yields_record_and_document:
  assumes "makedirs_fault env (temp_dir env) = None"
    and "save_upload env w img (img_path env) = Inr w1"
    and "read_bytes env w1 (img_path env) = Inr bytes"
    and "generate_content env system_prompt \<lparr>mime_type = ''image/jpeg'', data = bytes\<rparr> user_prompt
           = Inl e"
    and "json_data = json_dumps env (exception_record (exn_text env e) (now_isoformat env))"
    and "json_loads env json_data = Inr (exception_record (exn_text env e) (now_isoformat env))"
    and "output_fault env (page_start env) (pdf_path env) = None"
  shows "analyze_blood_report env w1 (img_path env) = Inr json_data
       \<and> process_image env w (Some img)
           = Inr (([], Some json_data, Some (pdf_path env)),
                  w1\<lparr>files := (files w1)(pdf_path env \<mapsto> Pdf (page_start env))\<rparr>)"
proof -
  have a: "analyze_blood_report env w1 (img_path env) = Inr json_data"
    using analyze_model_failure[OF assms(3,4)] assms(5) by simp
  have l: "json_loads env json_data
           = Inr (JObj [(''error'', JStr (exn_text env e)), (''timestamp'', JStr (now_isoformat env))])"
    using assms(6) by (simp add: exception_record_def)
  have "process_image env w (Some img)
           = Inr (([], Some json_data, Some (pdf_path env)),
                  w1\<lparr>files := (files w1)(pdf_path env \<mapsto> Pdf (page_start env))\<rparr>)"
    by (rule process_image_plain_record(2)[OF assms(1,2) a l _ _ _ _ _ assms(7)]) simp_all
  then show ?thesis using a by simp
qed

text \<open>
  The run in which the service refuses the call.
\<close>

theorem model_failure_yields_record_and_document_witness:
  "makedirs_fault quota_env (temp_dir quota_env) = None
   \<and> save_upload quota_env empty_world (PilImage [255, 216, 255]) (img_path quota_env)
       = Inr (world_with (img_path quota_env) (Bytes [255, 216, 255]))
   \<and> read_bytes quota_env (world_with (img_path quota_env) (Bytes [255, 216, 255]))
         (img_path quota_env) = Inr (Bytes [255, 216, 255])
   \<and> generate_content quota_env system_prompt
         \<lparr>mime_type = ''image/jpeg'', data = Bytes [255, 216, 255]\<rparr> user_prompt
       = Inl (ServiceError ''429 quota exceeded'')
   \<and> quota_json = json_dumps quota_env
         (exception_record (exn_text quota_env (ServiceError ''429 quota exceeded''))
            (now_isoformat quota_env))
   \<and> json_loads quota_env quota_json
       = Inr (exception_record (exn_text quota_env (ServiceError ''429 quota exceeded''))
                (now_isoformat quota_env))
   \<and> output_fault quota_env (page_start quota_env) (pdf_path quota_env) = None
   \<and> analyze_blood_report quota_env (world_with (img_path quota_env) (Bytes [255, 216, 255]))
         (img_path quota_env) = Inr quota_json
   \<and> returned (process_image quota_env empty_world (Some (PilImage [255, 216, 255])))
       = Inr ([], Some quota_json, Some (pdf_path quota_env))"
proof -
  let ?w1 = "world_with (img_path quota_env) (Bytes [255, 216, 255])"
  let ?e = "ServiceError ''429 quota exceeded''"
  have m: "makedirs_fault quota_env (temp_dir quota_env) = None"
    by (simp add: quota_env_def sample_env_def)
  have s: "save_upload quota_env empty_world (PilImage [255, 216, 255]) (img_path quota_env) = Inr ?w1"
    unfolding quota_env_def by (rule sample_save)
  have r: "read_bytes quota_env ?w1 (img_path quota_env) = Inr (Bytes [255, 216, 255])"
    unfolding quota_env_def by (rule sample_read)
  have g: "generate_content quota_env system_prompt
             \<lparr>mime_type = ''image/jpeg'', data = Bytes [255, 216, 255]\<rparr> user_prompt = Inl ?e"
    by (simp add: quota_env_def sample_env_def)
  have d: "quota_json = json_dumps quota_env
             (exception_record (exn_text quota_env ?e) (now_isoformat quota_env))"
    by (simp add: quota_env_def sample_env_def sample_exn_text_def)
  have l: "json_loads quota_env quota_json
           = Inr (exception_record (exn_text quota_env ?e) (now_isoformat quota_env))"
    by (simp add: quota_env_def sample_env_def sample_exn_text_def)
  have out: "output_fault quota_env (page_start quota_env) (pdf_path quota_env) = None"
    by (simp add: quota_env_def sample_env_def)
  show ?thesis
    using model_failure_yields_record_and_document [OF m s r g d l out] m s r g d l out
    by (simp add: returned_def)
qed

text \<open>
  C2. The claim reads: the renderer is never invoked on an error-variant record. The
  source has no such test: a reply without braces is normalized to the error variant, and
  \<open>process_image\<close> still calls \<open>generate_pdf\<close>, which writes a document.
\<close>

theorem error_variant_reaches_renderer:
  "normalize_record unreadable_env ''I cannot read this image.''
     = Inr (parse_error_record ''Could not parse the blood report'' ''I cannot read this image.''
              ''2024-05-01T10:00:01'')
   \<and> returned (process_image unreadable_env empty_world (Some (PilImage [255, 216, 255])))
     = Inr ([], Some unreadable_json,
            Some ''/tmp/blood_report_analyzer/blood_report_analysis_20240501100002.pdf'')
   \<and> left_at (process_image unreadable_env empty_world (Some (PilImage [255, 216, 255])))
         ''/tmp/blood_report_analyzer/blood_report_analysis_20240501100002.pdf''
     = Some (Pdf [AliasNbPages, AddPage, SetFont ''Arial'' ''I'' 10,
                  Cell 0 10 (JStr ''Generated on: May 01, 2024, 10:00'') 0 1 [] 0, Ln (Some 4)])"
  using unreadable_run
  by (simp add: returned_def left_at_def unreadable_pdf_path[symmetric] page_start_def)
     (simp add: unreadable_env_def sample_env_def)

text \<open>
  C2, as the source has it: \<open>process_image\<close> calls \<open>generate_pdf\<close> on the string of
  every record, the error variant included; for an error-variant record no section is
  drawn, so the document written holds the generation line only, and its path is returned
  with the record.
\<close>

theorem error_variant_is_rendered:
  assumes "makedirs_fault env (temp_dir env) = None"
    and "save_upload env w img (img_path env) = Inr w1"
    and "read_bytes env w1 (img_path env) = Inr bytes"
    and "generate_content env system_prompt \<lparr>mime_type = ''image/jpeg'', data = bytes\<rparr> user_prompt
           = Inr text"
    and "normalize_record env text = Inr (parse_error_record msg raw ts)"
    and "json_data = json_dumps env (parse_error_record msg raw ts)"
    and "json_loads env json_data = Inr (parse_error_record msg raw ts)"
    and "output_fault env (page_start env) (pdf_path env) = None"
  shows "generate_pdf env w1 (AsText json_data) (Some (pdf_path env))
           = Inr (pdf_path env, w1\<lparr>files := (files w1)(pdf_path env \<mapsto> Pdf (page_start env))\<rparr>)
       \<and> process_image env w (Some img)
           = Inr (([], Some json_data, Some (pdf_path env)),
                  w1\<lparr>files := (files w1)(pdf_path env \<mapsto> Pdf (page_start env))\<rparr>)"
proof -
  have a: "analyze_blood_report env w1 (img_path env) = Inr json_data"
    using analyze_model_reply[OF assms(3,4,5)] assms(6) by simp
  have l: "json_loads env json_data
           = Inr (JObj [(''error'', JStr msg), (''raw_response'', JStr raw), (''timestamp'', JStr ts)])"
    using assms(7) by (simp add: parse_error_record_def)
  have g: "generate_pdf env w1 (AsText json_data) (Some (pdf_path env))
           = Inr (pdf_path env, w1\<lparr>files := (files w1)(pdf_path env \<mapsto> Pdf (page_start env))\<rparr>)"
    by (rule process_image_plain_record(1)[OF assms(1,2) a l _ _ _ _ _ assms(8)]) simp_all
  have p: "process_image env w (Some img)
           = Inr (([], Some json_data, Some (pdf_path env)),
                  w1\<lparr>files := (files w1)(pdf_path env \<mapsto> Pdf (page_start env))\<rparr>)"
    by (rule process_image_plain_record(2)[OF assms(1,2) a l _ _ _ _ _ assms(8)]) simp_all
  show ?thesis using g p by simp
qed

text \<open>
  The run in which the model answers with prose.
\<close>

theorem error_variant_is_rendered_witness:
  "makedirs_fault unreadable_env (temp_dir unreadable_env) = None
   \<and> save_upload unreadable_env empty_world (PilImage [255, 216, 255]) (img_path unreadable_env)
       = Inr (world_with (img_path unreadable_env) (Bytes [255, 216, 255]))
   \<and> read_bytes unreadable_env (world_with (img_path unreadable_env) (Bytes [255, 216, 255]))
         (img_path unreadable_env) = Inr (Bytes [255, 216, 255])
   \<and> generate_content unreadable_env system_prompt
         \<lparr>mime_type = ''image/jpeg'', data = Bytes [255, 216, 255]\<rparr> user_prompt
       = Inr ''I cannot read this image.''
   \<and> normalize_record unreadable_env ''I cannot read this image.''
       = Inr (parse_error_record ''Could not parse the blood report''
                ''I cannot read this image.'' ''2024-05-01T10:00:01'')
   \<and> unreadable_json = json_dumps unreadable_env
         (parse_error_record ''Could not parse the blood report''
            ''I cannot read this image.'' ''2024-05-01T10:00:01'')
   \<and> json_loads unreadable_env unreadable_json
       = Inr (parse_error_record ''Could not parse the blood report''
                ''I cannot read this image.'' ''2024-05-01T10:00:01'')
   \<and> output_fault unreadable_env (page_start unreadable_env) (pdf_path unreadable_env) = None
   \<and> returned (generate_pdf unreadable_env
         (world_with (img_path unreadable_env) (Bytes [255, 216, 255]))
         (AsText unreadable_json) (Some (pdf_path unreadable_env)))
       = Inr (pdf_path unreadable_env)"
proof -
  let ?w1 = "world_with (img_path unreadable_env) (Bytes [255, 216, 255])"
  let ?rec = "parse_error_record ''Could not parse the blood report''
                ''I cannot read this image.'' ''2024-05-01T10:00:01''"
  have m: "makedirs_fault unreadable_env (temp_dir unreadable_env) = None"
    by (simp add: unreadable_env_def sample_env_def)
  have s: "save_upload unreadable_env empty_world (PilImage [255, 216, 255])
             (img_path unreadable_env) = Inr ?w1"
    unfolding unreadable_env_def by (rule sample_save)
  have r: "read_bytes unreadable_env ?w1 (img_path unreadable_env) = Inr (Bytes [255, 216, 255])"
    unfolding unreadable_env_def by (rule sample_read)
  have g: "generate_content unreadable_env system_prompt
             \<lparr>mime_type = ''image/jpeg'', data = Bytes [255, 216, 255]\<rparr> user_prompt
           = Inr ''I cannot read this image.''"
    by (simp add: unreadable_env_def sample_env_def)
  have n: "normalize_record unreadable_env ''I cannot read this image.'' = Inr ?rec"
    by (simp add: unreadable_env_def normalize_record_no_braces sample_env_def)
  have d: "unreadable_json = json_dumps unreadable_env ?rec"
    by (simp add: unreadable_env_def sample_env_def)
  have l: "json_loads unreadable_env unreadable_json = Inr ?rec"
    by (simp add: unreadable_env_def sample_env_def)
  have out: "output_fault unreadable_env (page_start unreadable_env) (pdf_path unreadable_env) = None"
    by (simp add: unreadable_env_def sample_env_def)
  show ?thesis
    using error_variant_is_rendered [OF m s r g n d l out] m s r g n d l out
    by (simp add: returned_def)
qed

end
